theory Spec2Isabelle
  imports Main
begin

section \<open>Values arriving from the HTTP layer\<close>

text \<open>
  The handlers of \<^verbatim>\<open>src/index.ts\<close> read JSON values out of \<^verbatim>\<open>req.body\<close> and
  \<^verbatim>\<open>req.query\<close>. A key that is absent reads as \<^verbatim>\<open>undefined\<close>. A string is a
  list of 8-bit characters: a character of a JavaScript string beyond that range has no
  counterpart here (the username pattern rejects every character that is not ASCII).
  The handlers never inspect the payload of a number.
\<close>

datatype jsval =
    JUndefined
  | JNull
  | JBool bool
  | JNum int
  | JStr string
  | JArray "jsval list"
  | JObject "(string \<times> jsval) list"

text \<open>
  \<^verbatim>\<open>const { username, email, password, city, country, street, pincode } = req.body;\<close>
  The body is a parsed JSON object; the record holds what the seven names are bound to.
\<close>

record signup_body =
  username :: jsval
  email :: jsval
  password :: jsval
  city :: jsval
  country :: jsval
  street :: jsval
  pincode :: jsval

section \<open>External collaborators\<close>

text \<open>
  The libraries the handlers call are not part of the repository. What the handlers need
  of them is taken as a parameter:
  \<^item> \<open>isEmail\<close>: the test behind \<^verbatim>\<open>zod.string().email()\<close>;
  \<^item> \<open>bcryptHash\<close>: \<^verbatim>\<open>bcrypt.hash(data, rounds)\<close>, \<open>None\<close> when the promise rejects;
  \<^item> \<open>toText\<close>: how the database driver writes a parameter that is neither a string nor
    null (numbers, booleans, arrays, objects) as text;
  \<^item> \<open>int4in\<close>: the database's reading of a text parameter as an \<^verbatim>\<open>INTEGER\<close>,
    \<open>None\<close> when the text is not an integer;
  \<^item> \<open>now\<close>: the value of \<^verbatim>\<open>CURRENT_TIMESTAMP\<close> while the request runs.
\<close>

record env =
  isEmail :: "string \<Rightarrow> bool"
  bcryptHash :: "jsval \<Rightarrow> nat \<Rightarrow> string option"
  toText :: "jsval \<Rightarrow> string"
  int4in :: "string \<Rightarrow> int option"
  now :: nat

definition saltRounds :: nat where
  "saltRounds = 10"

section \<open>Zod schemas\<close>

text \<open>\<^verbatim>\<open>zod.string()\<close> accepts exactly the values whose \<^verbatim>\<open>typeof\<close> is \<^verbatim>\<open>"string"\<close>.\<close>

definition zod_string :: "jsval \<Rightarrow> bool" where
  "zod_string v = (case v of JStr _ \<Rightarrow> True | _ \<Rightarrow> False)"

text \<open>
  The pattern \<^verbatim>\<open>/^[a-z A-Z\d]{2,20}$/\<close>: one character class, repeated between 2 and
  20 times, anchored at both ends of the input (no flags, so \<^verbatim>\<open>\d\<close> is \<^verbatim>\<open>[0-9]\<close> and
  \<^verbatim>\<open>$\<close> is the end of the input only).
\<close>

datatype class_item = Range char char | Single char | Digit

definition in_item :: "class_item \<Rightarrow> char \<Rightarrow> bool" where
  "in_item it c =
     (case it of
        Range lo hi \<Rightarrow> (of_char lo :: nat) \<le> of_char c \<and> (of_char c :: nat) \<le> of_char hi
      | Single x \<Rightarrow> c = x
      | Digit \<Rightarrow> (of_char (CHR ''0'') :: nat) \<le> of_char c \<and> (of_char c :: nat) \<le> of_char (CHR ''9''))"

definition in_class :: "class_item list \<Rightarrow> char \<Rightarrow> bool" where
  "in_class items c = list_ex (\<lambda>it. in_item it c) items"

fun match_rep :: "class_item list \<Rightarrow> nat \<Rightarrow> nat \<Rightarrow> string \<Rightarrow> bool" where
  "match_rep cl lo hi [] = (lo = 0)"
| "match_rep cl lo hi (c # cs) = (0 < hi \<and> in_class cl c \<and> match_rep cl (lo - 1) (hi - 1) cs)"

definition username_class :: "class_item list" where
  "username_class = [Range (CHR ''a'') (CHR ''z''), Single (CHR '' ''), Range (CHR ''A'') (CHR ''Z''), Digit]"

definition usernameSchema :: "jsval \<Rightarrow> bool" where
  "usernameSchema v = (case v of JStr s \<Rightarrow> match_rep username_class 2 20 s | _ \<Rightarrow> False)"

definition emailSchema :: "env \<Rightarrow> jsval \<Rightarrow> bool" where
  "emailSchema e v = (case v of JStr s \<Rightarrow> isEmail e s | _ \<Rightarrow> False)"

definition passwordSchema :: "jsval \<Rightarrow> bool" where
  "passwordSchema = zod_string"

definition citySchema :: "jsval \<Rightarrow> bool" where
  "citySchema = zod_string"

definition countrySchema :: "jsval \<Rightarrow> bool" where
  "countrySchema = zod_string"

definition streetSchema :: "jsval \<Rightarrow> bool" where
  "streetSchema = zod_string"

definition pincodeSchema :: "jsval \<Rightarrow> bool" where
  "pincodeSchema = zod_string"

text \<open>The condition of the \<^verbatim>\<open>if\<close> on line 36, negated: every \<^verbatim>\<open>safeParse\<close> succeeded.\<close>

definition all_valid :: "env \<Rightarrow> signup_body \<Rightarrow> bool" where
  "all_valid e b =
     (usernameSchema (username b) \<and> emailSchema e (email b) \<and> passwordSchema (password b) \<and>
      citySchema (city b) \<and> countrySchema (country b) \<and> streetSchema (street b) \<and>
      pincodeSchema (pincode b))"

text \<open>
  The username rule in the specification's words: a string of 2 to 20 characters, each an
  ASCII letter, an ASCII digit or a space.
\<close>

definition ascii_letter :: "char \<Rightarrow> bool" where
  "ascii_letter c = (c \<in> set ''abcdefghijklmnopqrstuvwxyzABCDEFGHIJKLMNOPQRSTUVWXYZ'')"

definition ascii_digit :: "char \<Rightarrow> bool" where
  "ascii_digit c = (c \<in> set ''0123456789'')"

definition spec_username_char :: "char \<Rightarrow> bool" where
  "spec_username_char c = (ascii_letter c \<or> ascii_digit c \<or> c = CHR '' '')"

definition spec_username_ok :: "jsval \<Rightarrow> bool" where
  "spec_username_ok v =
     (case v of
        JStr s \<Rightarrow> 2 \<le> length s \<and> length s \<le> 20 \<and> list_all spec_username_char s
      | _ \<Rightarrow> False)"

section \<open>The relational store\<close>

text \<open>
  The two tables of \<^verbatim>\<open>src/schema.ts\<close>. A table is the list of its rows in insertion
  order. \<^verbatim>\<open>SERIAL\<close> columns draw from a sequence that is never rolled back.
  A \<open>database\<close> is the store together with the one session that is open on it.
\<close>

record user_row =
  u_id :: int
  u_username :: string
  u_email :: string
  u_password :: string
  u_created_at :: nat

record address_row =
  a_id :: int
  a_user_id :: int
  a_city :: string
  a_country :: string
  a_street :: string
  a_pincode :: "string option"
  a_created_at :: nat

text \<open>
  The transaction status of the session: outside a transaction, inside one (holding the
  tables as they were at \<^verbatim>\<open>BEGIN\<close>), or inside one that a failed statement has aborted.
\<close>

datatype tx_state =
    Idle
  | InTx "user_row list" "address_row list"
  | Aborted "user_row list" "address_row list"

record database =
  users :: "user_row list"
  addresses :: "address_row list"
  users_id_seq :: int
  addresses_id_seq :: int
  txn :: tx_state

datatype db_error =
    InvalidByteSequence
  | StringTooLong
  | NotNullViolation
  | UniqueViolation
  | ForeignKeyViolation
  | SequenceExhausted
  | InvalidTextRepresentation
  | InFailedTransaction

definition int4_max :: int where
  "int4_max = 2147483647"

text \<open>
  A text parameter stored into \<^verbatim>\<open>VARCHAR(n)\<close>: a text holding the character NUL is
  refused; a longer string is an error unless the excess is all spaces, in which case it
  is truncated.
\<close>

definition varchar :: "nat \<Rightarrow> string option \<Rightarrow> db_error + string option" where
  "varchar n p =
     (case p of
        None \<Rightarrow> Inr None
      | Some s \<Rightarrow>
          if CHR 0x00 \<in> set s then Inl InvalidByteSequence
          else if length s \<le> n then Inr (Some s)
          else if list_all (\<lambda>c. c = CHR '' '') (drop n s) then Inr (Some (take n s))
          else Inl StringTooLong)"

text \<open>
  \<^verbatim>\<open>INSERT INTO users (username, email, password) VALUES ($1, $2, $3) RETURNING id\<close>.
  The three parameters are brought to the types of their columns first; a parameter that
  does not fit fails the statement before the sequence is touched. Then the identifier is
  drawn from the sequence, and the row is checked against \<^verbatim>\<open>NOT NULL\<close>, the primary
  key and the two \<^verbatim>\<open>UNIQUE\<close> constraints.
\<close>

definition user_values ::
  "string option \<Rightarrow> string option \<Rightarrow> string option \<Rightarrow>
   db_error + string option \<times> string option \<times> string option"
where
  "user_values un em pw =
     (case varchar 50 un of Inl e \<Rightarrow> Inl e | Inr un' \<Rightarrow>
     (case varchar 50 em of Inl e \<Rightarrow> Inl e | Inr em' \<Rightarrow>
     (case varchar 100 pw of Inl e \<Rightarrow> Inl e | Inr pw' \<Rightarrow> Inr (un', em', pw'))))"

definition new_user_row ::
  "nat \<Rightarrow> int \<Rightarrow> string option \<times> string option \<times> string option \<Rightarrow> user_row list \<Rightarrow>
   db_error + user_row"
where
  "new_user_row t i vals us =
     (case vals of (un', em', pw') \<Rightarrow>
     (case un' of None \<Rightarrow> Inl NotNullViolation | Some u \<Rightarrow>
     (case em' of None \<Rightarrow> Inl NotNullViolation | Some m \<Rightarrow>
     (case pw' of None \<Rightarrow> Inl NotNullViolation | Some p \<Rightarrow>
        if i \<in> set (map u_id us) \<or> u \<in> set (map u_username us) \<or> m \<in> set (map u_email us)
        then Inl UniqueViolation
        else Inr \<lparr>u_id = i, u_username = u, u_email = m, u_password = p,
                  u_created_at = t\<rparr>))))"

definition insert_user ::
  "nat \<Rightarrow> string option \<Rightarrow> string option \<Rightarrow> string option \<Rightarrow> database \<Rightarrow> (db_error + int) \<times> database"
where
  "insert_user t un em pw d =
     (case user_values un em pw of
        Inl e \<Rightarrow> (Inl e, d)
      | Inr vals \<Rightarrow>
          if int4_max \<le> users_id_seq d then (Inl SequenceExhausted, d)
          else
            let i = users_id_seq d + 1; d1 = d\<lparr>users_id_seq := i\<rparr>
            in case new_user_row t i vals (users d) of
                 Inl e \<Rightarrow> (Inl e, d1)
               | Inr row \<Rightarrow> (Inr i, d1\<lparr>users := users d @ [row]\<rparr>))"

text \<open>
  \<^verbatim>\<open>INSERT INTO addresses (user_id, city, country, street, pincode) VALUES ($1, $2, $3, $4, $5)\<close>,
  in the same order: parameters, sequence, constraints (the last of them the foreign key).
\<close>

definition address_values ::
  "string option \<Rightarrow> string option \<Rightarrow> string option \<Rightarrow> string option \<Rightarrow>
   db_error + string option \<times> string option \<times> string option \<times> string option"
where
  "address_values ci co st pin =
     (case varchar 100 ci of Inl e \<Rightarrow> Inl e | Inr ci' \<Rightarrow>
     (case varchar 100 co of Inl e \<Rightarrow> Inl e | Inr co' \<Rightarrow>
     (case varchar 100 st of Inl e \<Rightarrow> Inl e | Inr st' \<Rightarrow>
     (case varchar 20 pin of Inl e \<Rightarrow> Inl e | Inr pin' \<Rightarrow> Inr (ci', co', st', pin')))))"

definition new_address_row ::
  "nat \<Rightarrow> int \<Rightarrow> int \<Rightarrow> string option \<times> string option \<times> string option \<times> string option \<Rightarrow>
   user_row list \<Rightarrow> address_row list \<Rightarrow> db_error + address_row"
where
  "new_address_row t i uid vals us ads =
     (case vals of (ci', co', st', pin') \<Rightarrow>
     (case ci' of None \<Rightarrow> Inl NotNullViolation | Some c \<Rightarrow>
     (case co' of None \<Rightarrow> Inl NotNullViolation | Some k \<Rightarrow>
     (case st' of None \<Rightarrow> Inl NotNullViolation | Some s \<Rightarrow>
        if i \<in> set (map a_id ads) then Inl UniqueViolation
        else if uid \<notin> set (map u_id us) then Inl ForeignKeyViolation
        else Inr \<lparr>a_id = i, a_user_id = uid, a_city = c, a_country = k, a_street = s,
                  a_pincode = pin', a_created_at = t\<rparr>))))"

definition insert_address ::
  "nat \<Rightarrow> int \<Rightarrow> string option \<Rightarrow> string option \<Rightarrow> string option \<Rightarrow> string option \<Rightarrow> database \<Rightarrow>
   (db_error + unit) \<times> database"
where
  "insert_address t uid ci co st pin d =
     (case address_values ci co st pin of
        Inl e \<Rightarrow> (Inl e, d)
      | Inr vals \<Rightarrow>
          if int4_max \<le> addresses_id_seq d then (Inl SequenceExhausted, d)
          else
            let i = addresses_id_seq d + 1; d1 = d\<lparr>addresses_id_seq := i\<rparr>
            in case new_address_row t i uid vals (users d) (addresses d) of
                 Inl e \<Rightarrow> (Inl e, d1)
               | Inr row \<Rightarrow> (Inr (), d1\<lparr>addresses := addresses d @ [row]\<rparr>))"

text \<open>
  A statement on the session. Outside a transaction it runs on its own. Inside one, a
  failure aborts the transaction; in an aborted transaction nothing runs.
\<close>

definition exec_stmt ::
  "(database \<Rightarrow> (db_error + 'a) \<times> database) \<Rightarrow> database \<Rightarrow> (db_error + 'a) \<times> database"
where
  "exec_stmt f d =
     (case txn d of
        Idle \<Rightarrow> f d
      | Aborted us ads \<Rightarrow> (Inl InFailedTransaction, d)
      | InTx us ads \<Rightarrow>
          (case f d of
             (Inl e, d') \<Rightarrow> (Inl e, d'\<lparr>txn := Aborted us ads\<rparr>)
           | (Inr x, d') \<Rightarrow> (Inr x, d')))"

text \<open>
  \<^verbatim>\<open>BEGIN\<close>, \<^verbatim>\<open>COMMIT\<close> and \<^verbatim>\<open>ROLLBACK\<close>. \<^verbatim>\<open>BEGIN\<close> inside a transaction and
  \<^verbatim>\<open>COMMIT\<close>/\<^verbatim>\<open>ROLLBACK\<close> outside one only warn. \<^verbatim>\<open>COMMIT\<close> of an aborted
  transaction rolls back.
\<close>

definition db_begin :: "database \<Rightarrow> (db_error + unit) \<times> database" where
  "db_begin d =
     (case txn d of
        Idle \<Rightarrow> (Inr (), d\<lparr>txn := InTx (users d) (addresses d)\<rparr>)
      | InTx us ads \<Rightarrow> (Inr (), d)
      | Aborted us ads \<Rightarrow> (Inl InFailedTransaction, d))"

definition db_commit :: "database \<Rightarrow> (db_error + unit) \<times> database" where
  "db_commit d =
     (case txn d of
        Idle \<Rightarrow> (Inr (), d)
      | InTx us ads \<Rightarrow> (Inr (), d\<lparr>txn := Idle\<rparr>)
      | Aborted us ads \<Rightarrow> (Inr (), d\<lparr>users := us, addresses := ads, txn := Idle\<rparr>))"

definition db_rollback :: "database \<Rightarrow> (db_error + unit) \<times> database" where
  "db_rollback d =
     (case txn d of
        Idle \<Rightarrow> (Inr (), d)
      | InTx us ads \<Rightarrow> (Inr (), d\<lparr>users := us, addresses := ads, txn := Idle\<rparr>)
      | Aborted us ads \<Rightarrow> (Inr (), d\<lparr>users := us, addresses := ads, txn := Idle\<rparr>))"

text \<open>The driver sends \<^verbatim>\<open>undefined\<close> and \<^verbatim>\<open>null\<close> as SQL NULL and a string as it is.\<close>

definition prepareValue :: "env \<Rightarrow> jsval \<Rightarrow> string option" where
  "prepareValue e v =
     (case v of
        JUndefined \<Rightarrow> None
      | JNull \<Rightarrow> None
      | JStr s \<Rightarrow> Some s
      | _ \<Rightarrow> Some (toText e v))"

text \<open>
  \<^verbatim>\<open>SELECT id, username, email FROM users WHERE id = $1\<close>. A NULL parameter compares
  equal to nothing; a text that is not an integer is an error.
\<close>

record user_view =
  v_id :: int
  v_username :: string
  v_email :: string

definition view_of :: "user_row \<Rightarrow> user_view" where
  "view_of u = \<lparr>v_id = u_id u, v_username = u_username u, v_email = u_email u\<rparr>"

definition select_user :: "env \<Rightarrow> string option \<Rightarrow> database \<Rightarrow> (db_error + user_view list) \<times> database" where
  "select_user e p d =
     (case p of
        None \<Rightarrow> (Inr [], d)
      | Some s \<Rightarrow>
          (case int4in e s of
             None \<Rightarrow> (Inl InvalidTextRepresentation, d)
           | Some i \<Rightarrow> (Inr (map view_of (filter (\<lambda>u. u_id u = i) (users d))), d)))"

text \<open>\<^verbatim>\<open>SELECT * FROM addresses WHERE user_id = $1\<close>\<close>

definition select_addresses ::
  "env \<Rightarrow> string option \<Rightarrow> database \<Rightarrow> (db_error + address_row list) \<times> database"
where
  "select_addresses e p d =
     (case p of
        None \<Rightarrow> (Inr [], d)
      | Some s \<Rightarrow>
          (case int4in e s of
             None \<Rightarrow> (Inl InvalidTextRepresentation, d)
           | Some i \<Rightarrow> (Inr (filter (\<lambda>a. a_user_id a = i) (addresses d)), d)))"

text \<open>
  \<^verbatim>\<open>SELECT users.id, users.username, users.email, addresses.city, addresses.country,
  addresses.street, addresses.pincode FROM users JOIN addresses ON users.id = addresses.user_id
  WHERE users.id = $1\<close>: one row for every pair of a user and an address of that user.
\<close>

record joined_row =
  j_id :: int
  j_username :: string
  j_email :: string
  j_city :: string
  j_country :: string
  j_street :: string
  j_pincode :: "string option"

definition join_row :: "user_row \<Rightarrow> address_row \<Rightarrow> joined_row" where
  "join_row u a =
     \<lparr>j_id = u_id u, j_username = u_username u, j_email = u_email u, j_city = a_city a,
      j_country = a_country a, j_street = a_street a, j_pincode = a_pincode a\<rparr>"

definition inner_join :: "int \<Rightarrow> user_row list \<Rightarrow> address_row list \<Rightarrow> joined_row list" where
  "inner_join i us ads =
     concat (map (\<lambda>u. map (join_row u) (filter (\<lambda>a. u_id u = a_user_id a) ads))
                 (filter (\<lambda>u. u_id u = i) us))"

definition select_join :: "env \<Rightarrow> string option \<Rightarrow> database \<Rightarrow> (db_error + joined_row list) \<times> database" where
  "select_join e p d =
     (case p of
        None \<Rightarrow> (Inr [], d)
      | Some s \<Rightarrow>
          (case int4in e s of
             None \<Rightarrow> (Inl InvalidTextRepresentation, d)
           | Some i \<Rightarrow> (Inr (inner_join i (users d) (addresses d)), d)))"

section \<open>Request handling: state, exceptions, effects\<close>

text \<open>
  What a handler can throw, what it can send, and what it does that is visible from
  outside: console output, calls of the hasher, statements sent to the store, and calls
  of \<^verbatim>\<open>res.status(c).json(body)\<close>.
\<close>

datatype exn = Db db_error | BcryptRejected | HeadersSent

datatype payload =
    Message string
  | UserWithAddresses user_view "address_row list"
  | UserAndAddresses joined_row

datatype stmt =
    Begin
  | Commit
  | Rollback
  | InsertUser "string option" "string option" "string option"
  | InsertAddress int "string option" "string option" "string option" "string option"
  | SelectUser "string option"
  | SelectAddresses "string option"
  | SelectJoin "string option"

datatype event =
    ConsoleLog string
  | ConsoleError string exn
  | BcryptHash jsval nat
  | Query stmt
  | ResJson nat payload

text \<open>
  The pool of \<^verbatim>\<open>src/db.ts\<close> is shared by all requests, and the handlers never take a
  client of their own: every statement goes through \<^verbatim>\<open>pool.query\<close>, which hands it
  to an idle client. Queries are served one at a time here, so the pool holds one client,
  and every query, of whichever request, runs on the session of that client. A query that
  fails removes its client from the pool: the connection is closed, the server rolls back
  the transaction that was open on it, and the next query is served by a new client.
\<close>

definition close_session :: "database \<Rightarrow> database" where
  "close_session d =
     (case txn d of
        Idle \<Rightarrow> d
      | InTx us ads \<Rightarrow> d\<lparr>users := us, addresses := ads, txn := Idle\<rparr>
      | Aborted us ads \<Rightarrow> d\<lparr>users := us, addresses := ads, txn := Idle\<rparr>)"

definition pool_run ::
  "(database \<Rightarrow> (db_error + 'a) \<times> database) \<Rightarrow> database \<Rightarrow> (db_error + 'a) \<times> database"
where
  "pool_run run d =
     (case run d of
        (Inl e, d') \<Rightarrow> (Inl e, close_session d')
      | (Inr x, d') \<Rightarrow> (Inr x, d'))"

text \<open>A query of another request, served by the pool; its result goes to that request.\<close>

fun serve :: "env \<Rightarrow> stmt \<Rightarrow> database \<Rightarrow> database" where
  "serve e Begin d = snd (pool_run db_begin d)"
| "serve e Commit d = snd (pool_run db_commit d)"
| "serve e Rollback d = snd (pool_run db_rollback d)"
| "serve e (InsertUser un em pw) d = snd (pool_run (exec_stmt (insert_user (now e) un em pw)) d)"
| "serve e (InsertAddress uid ci co st pin) d =
     snd (pool_run (exec_stmt (insert_address (now e) uid ci co st pin)) d)"
| "serve e (SelectUser p) d = snd (pool_run (exec_stmt (select_user e p)) d)"
| "serve e (SelectAddresses p) d = snd (pool_run (exec_stmt (select_addresses e p)) d)"
| "serve e (SelectJoin p) d = snd (pool_run (exec_stmt (select_join e p)) d)"

text \<open>
  The state a handler runs in: the store and the pool's session; the queries of other
  requests that the pool serves while this request runs (\<open>meanwhile\<close>: those served
  before this request's next query, then those before the one after, and so on); the
  response that has gone out on \<^verbatim>\<open>res\<close> (if any); and the effects so far, oldest first.
\<close>

record world =
  db :: database
  meanwhile :: "stmt list list"
  sent :: "(nat \<times> payload) option"
  trace :: "event list"

definition fresh :: "database \<Rightarrow> world" where
  "fresh d = \<lparr>db = d, meanwhile = [], sent = None, trace = []\<rparr>"

type_synonym 'a action = "world \<Rightarrow> (exn + 'a) \<times> world"

definition ret :: "'a \<Rightarrow> 'a action" where
  "ret x w = (Inr x, w)"

text \<open>\<open>and_then f g\<close>: \<^verbatim>\<open>f; g\<close>, where an exception of \<open>f\<close> skips \<open>g\<close>.\<close>

definition and_then :: "'a action \<Rightarrow> ('a \<Rightarrow> 'b action) \<Rightarrow> 'b action" where
  "and_then f g w = (case f w of (Inl e, w') \<Rightarrow> (Inl e, w') | (Inr x, w') \<Rightarrow> g x w')"

text \<open>\<open>try_catch f h\<close>: \<^verbatim>\<open>try { f } catch (error) { h error }\<close>\<close>

definition try_catch :: "'a action \<Rightarrow> (exn \<Rightarrow> 'a action) \<Rightarrow> 'a action" where
  "try_catch f h w = (case f w of (Inl e, w') \<Rightarrow> h e w' | (Inr x, w') \<Rightarrow> (Inr x, w'))"

definition emit :: "event \<Rightarrow> unit action" where
  "emit ev w = (Inr (), w\<lparr>trace := trace w @ [ev]\<rparr>)"

text \<open>
  \<^verbatim>\<open>res.status(c).json(body)\<close>: the first call sends the response; a later call on
  the same \<^verbatim>\<open>res\<close> throws, because the headers have gone out.
\<close>

definition res_json :: "nat \<Rightarrow> payload \<Rightarrow> unit action" where
  "res_json c body w =
     (let w1 = w\<lparr>trace := trace w @ [ResJson c body]\<rparr>
      in case sent w of
           None \<Rightarrow> (Inr (), w1\<lparr>sent := Some (c, body)\<rparr>)
         | Some r \<Rightarrow> (Inl HeadersSent, w1))"

text \<open>
  \<^verbatim>\<open>await pool.query(...)\<close>: the pool first serves the queries of other requests that
  came in since this request's last query, then this one; its error is thrown.
\<close>

definition pool_query ::
  "env \<Rightarrow> stmt \<Rightarrow> (database \<Rightarrow> (db_error + 'a) \<times> database) \<Rightarrow> 'a action"
where
  "pool_query e st run w =
     (let d0 = fold (serve e) (case meanwhile w of [] \<Rightarrow> [] | ss # rest \<Rightarrow> ss) (db w);
          w1 = w\<lparr>meanwhile := (case meanwhile w of [] \<Rightarrow> [] | ss # rest \<Rightarrow> rest),
                 trace := trace w @ [Query st]\<rparr>
      in case pool_run run d0 of
           (Inl er, d') \<Rightarrow> (Inl (Db er), w1\<lparr>db := d'\<rparr>)
         | (Inr x, d') \<Rightarrow> (Inr x, w1\<lparr>db := d'\<rparr>))"

text \<open>\<^verbatim>\<open>await bcrypt.hash(password, saltRounds)\<close>\<close>

definition bcrypt_hash :: "env \<Rightarrow> jsval \<Rightarrow> nat \<Rightarrow> string action" where
  "bcrypt_hash e v r w =
     (let w1 = w\<lparr>trace := trace w @ [BcryptHash v r]\<rparr>
      in case bcryptHash e v r of
           None \<Rightarrow> (Inl BcryptRejected, w1)
         | Some h \<Rightarrow> (Inr h, w1))"

section \<open>POST /signup\<close>

text \<open>The body of the \<^verbatim>\<open>try\<close> block, lines 24 to 82 of \<^verbatim>\<open>src/index.ts\<close>.\<close>

definition signup_try :: "env \<Rightarrow> signup_body \<Rightarrow> unit action" where
  "signup_try e b =
     and_then (if \<not> usernameSchema (username b) \<or> \<not> emailSchema e (email b) \<or>
                  \<not> passwordSchema (password b) \<or> \<not> citySchema (city b) \<or>
                  \<not> countrySchema (country b) \<or> \<not> streetSchema (street b) \<or>
                  \<not> pincodeSchema (pincode b)
               then res_json 401 (Message ''Invalid Entry'')
               else ret ())
     (\<lambda>_. and_then (bcrypt_hash e (password b) saltRounds)
     (\<lambda>hashedPassword. and_then (pool_query e Begin db_begin)
     (\<lambda>_. and_then
        (pool_query e
           (InsertUser (prepareValue e (username b)) (prepareValue e (email b)) (Some hashedPassword))
           (exec_stmt
              (insert_user (now e) (prepareValue e (username b)) (prepareValue e (email b))
                 (Some hashedPassword))))
     (\<lambda>userId. and_then (emit (ConsoleLog ''Inserted Data Successfully into 'users' table''))
     (\<lambda>_. and_then
        (pool_query e
           (InsertAddress userId (prepareValue e (city b)) (prepareValue e (country b))
              (prepareValue e (street b)) (prepareValue e (pincode b)))
           (exec_stmt
              (insert_address (now e) userId (prepareValue e (city b)) (prepareValue e (country b))
                 (prepareValue e (street b)) (prepareValue e (pincode b)))))
     (\<lambda>_. and_then (emit (ConsoleLog ''Inserted Data Successfully into 'addresses' table''))
     (\<lambda>_. and_then (pool_query e Commit db_commit)
     (\<lambda>_. res_json 201 (Message ''Data Inserted Successfully'')))))))))"

text \<open>The \<^verbatim>\<open>catch\<close> block, lines 85 to 93.\<close>

definition signup_catch :: "env \<Rightarrow> exn \<Rightarrow> unit action" where
  "signup_catch e error =
     and_then (pool_query e Rollback db_rollback)
     (\<lambda>_. and_then (emit (ConsoleError ''Error during transaction, rolled back.'' error))
     (\<lambda>_. res_json 500 (Message ''Error Inserting Data'')))"

definition signup_handler :: "env \<Rightarrow> signup_body \<Rightarrow> unit action" where
  "signup_handler e b = try_catch (signup_try e b) (signup_catch e)"

text \<open>
  One request that has the pool to itself: a new \<^verbatim>\<open>res\<close>, and no query of another
  request while the handler runs.
\<close>

definition signup :: "env \<Rightarrow> signup_body \<Rightarrow> database \<Rightarrow> (exn + unit) \<times> world" where
  "signup e b d = signup_handler e b (fresh d)"


section \<open>GET /user/badapproach and GET /user/goodapproach\<close>

text \<open>\<open>q\<close> is \<^verbatim>\<open>req.query.id\<close>.\<close>

definition badapproach_try :: "env \<Rightarrow> jsval \<Rightarrow> unit action" where
  "badapproach_try e q =
     and_then (pool_query e (SelectUser (prepareValue e q)) (exec_stmt (select_user e (prepareValue e q))))
     (\<lambda>rows.
        case rows of
          [] \<Rightarrow> res_json 404 (Message ''User Not Found'')
        | user # _ \<Rightarrow>
            and_then
              (pool_query e (SelectAddresses (prepareValue e q))
                 (exec_stmt (select_addresses e (prepareValue e q))))
              (\<lambda>addrs. res_json 200 (UserWithAddresses user addrs)))"

definition lookup_catch :: "exn \<Rightarrow> unit action" where
  "lookup_catch error =
     and_then (emit (ConsoleError ''Error Fetching Data'' error))
     (\<lambda>_. res_json 500 (Message ''Error Fetching Data''))"

definition badapproach :: "env \<Rightarrow> jsval \<Rightarrow> database \<Rightarrow> (exn + unit) \<times> world" where
  "badapproach e q d = try_catch (badapproach_try e q) lookup_catch (fresh d)"

definition goodapproach_try :: "env \<Rightarrow> jsval \<Rightarrow> unit action" where
  "goodapproach_try e q =
     and_then (pool_query e (SelectJoin (prepareValue e q)) (exec_stmt (select_join e (prepareValue e q))))
     (\<lambda>rows.
        case rows of
          [] \<Rightarrow> res_json 404 (Message ''User Not Found'')
        | userAndAddresses # _ \<Rightarrow> res_json 200 (UserAndAddresses userAndAddresses))"

definition goodapproach :: "env \<Rightarrow> jsval \<Rightarrow> database \<Rightarrow> (exn + unit) \<times> world" where
  "goodapproach e q d = try_catch (goodapproach_try e q) lookup_catch (fresh d)"

section \<open>A concrete environment and concrete requests\<close>

text \<open>
  Stand-ins for the external collaborators, used to run the handlers on concrete
  requests: an e-mail test that only looks for an \<^verbatim>\<open>@\<close>, a hasher that rejects what is
  not a string (as \<^verbatim>\<open>bcrypt.hash\<close> does) and otherwise prefixes the text, and a reader
  of unsigned decimal integers.
\<close>

definition digit_of :: "char \<Rightarrow> nat option" where
  "digit_of c =
     (if (of_char (CHR ''0'') :: nat) \<le> of_char c \<and> (of_char c :: nat) \<le> of_char (CHR ''9'')
      then Some (of_char c - of_char (CHR ''0'')) else None)"

fun decimal :: "nat \<Rightarrow> string \<Rightarrow> nat option" where
  "decimal acc [] = Some acc"
| "decimal acc (c # cs) =
     (case digit_of c of None \<Rightarrow> None | Some k \<Rightarrow> decimal (10 * acc + k) cs)"

definition int4in_decimal :: "string \<Rightarrow> int option" where
  "int4in_decimal s =
     (if s = [] then None
      else case decimal 0 s of
             None \<Rightarrow> None
           | Some n \<Rightarrow> if int n \<le> int4_max then Some (int n) else None)"

definition sample_env :: env where
  "sample_env =
     \<lparr>isEmail = (\<lambda>s. CHR ''@'' \<in> set s),
      bcryptHash = (\<lambda>v r. case v of JStr s \<Rightarrow> Some (''$2b$10$'' @ s) | _ \<Rightarrow> None),
      toText = (\<lambda>v. ''?''),
      int4in = int4in_decimal,
      now = 0\<rparr>"

definition empty_db :: database where
  "empty_db = \<lparr>users = [], addresses = [], users_id_seq = 0, addresses_id_seq = 0, txn = Idle\<rparr>"

text \<open>The registration of the specification's scenario, and variations of it.\<close>

definition al_body :: signup_body where
  "al_body =
     \<lparr>username = JStr ''al'', email = JStr ''a@b.com'', password = JStr ''x'', city = JStr ''NY'',
      country = JStr ''US'', street = JStr ''Main'', pincode = JStr ''10001''\<rparr>"

definition al_user :: user_row where
  "al_user =
     \<lparr>u_id = 1, u_username = ''al'', u_email = ''a@b.com'', u_password = ''$2b$10$x'',
      u_created_at = 0\<rparr>"

definition al_address :: address_row where
  "al_address =
     \<lparr>a_id = 1, a_user_id = 1, a_city = ''NY'', a_country = ''US'', a_street = ''Main'',
      a_pincode = Some ''10001'', a_created_at = 0\<rparr>"

definition al_db :: database where
  "al_db =
     \<lparr>users = [al_user], addresses = [al_address], users_id_seq = 1, addresses_id_seq = 1,
      txn = Idle\<rparr>"



section \<open>The username rule\<close>

lemma match_rep_iff:
  "match_rep cl lo hi s \<longleftrightarrow> lo \<le> length s \<and> length s \<le> hi \<and> list_all (in_class cl) s"
  by (induction s arbitrary: lo hi) auto

lemma mem_chars: "c \<in> set cs \<longleftrightarrow> (of_char c :: nat) \<in> set (map of_char cs)"
  by (induction cs) auto

lemma lower_range:
  "((97::nat) \<le> of_char c \<and> (of_char c :: nat) \<le> 122) = (c \<in> set ''abcdefghijklmnopqrstuvwxyz'')"
  unfolding mem_chars[of c] by simp arith

lemma upper_range:
  "((65::nat) \<le> of_char c \<and> (of_char c :: nat) \<le> 90) = (c \<in> set ''ABCDEFGHIJKLMNOPQRSTUVWXYZ'')"
  unfolding mem_chars[of c] by simp arith

lemma digit_range:
  "((48::nat) \<le> of_char c \<and> (of_char c :: nat) \<le> 57) = (c \<in> set ''0123456789'')"
  unfolding mem_chars[of c] by simp arith

lemma in_username_class: "in_class username_class c = spec_username_char c"
proof -
  have "in_class username_class c =
          (((97::nat) \<le> of_char c \<and> (of_char c :: nat) \<le> 122) \<or> c = CHR '' '' \<or>
           ((65::nat) \<le> of_char c \<and> (of_char c :: nat) \<le> 90) \<or>
           ((48::nat) \<le> of_char c \<and> (of_char c :: nat) \<le> 57))"
    by (simp add: in_class_def username_class_def in_item_def)
  also have "\<dots> = (c \<in> set ''abcdefghijklmnopqrstuvwxyz'' \<or> c = CHR '' '' \<or>
                   c \<in> set ''ABCDEFGHIJKLMNOPQRSTUVWXYZ'' \<or> c \<in> set ''0123456789'')"
    by (simp only: lower_range upper_range digit_range)
  also have "\<dots> = spec_username_char c"
    unfolding spec_username_char_def ascii_letter_def ascii_digit_def by auto
  finally show ?thesis .
qed

text \<open>
  Claim C6. A username passes \<open>usernameSchema\<close> exactly when it is a string of 2 to 20
  characters, each an ASCII letter, an ASCII digit or a space; the one-character
  username \<^verbatim>\<open>"a"\<close> fails.
\<close>

theorem username_validation_rule:
  "(usernameSchema v \<longleftrightarrow> spec_username_ok v) \<and> \<not> usernameSchema (JStr ''a'')"
proof
  show "usernameSchema v \<longleftrightarrow> spec_username_ok v"
  proof (cases v)
    case (JStr s)
    have "in_class username_class = spec_username_char"
      by (rule ext) (rule in_username_class)
    then show ?thesis
      by (simp add: JStr usernameSchema_def spec_username_ok_def match_rep_iff)
  qed (simp_all add: usernameSchema_def spec_username_ok_def)
  show "\<not> usernameSchema (JStr ''a'')"
    by (simp add: usernameSchema_def)
qed

theorem username_validation_rule_witness:
  "usernameSchema (JStr ''al 9Z'') \<and> \<not> usernameSchema (JStr ''al_9'') \<and>
   \<not> usernameSchema (JNum 42)"
  using username_validation_rule [of "JStr ''al 9Z''"] username_validation_rule [of "JStr ''al_9''"]
    username_validation_rule [of "JNum 42"]
  by (simp add: spec_username_ok_def spec_username_char_def ascii_letter_def ascii_digit_def)

section \<open>Running the signup handler\<close>

text \<open>
  The \<^verbatim>\<open>catch\<close> block, when no query of another request comes in: \<^verbatim>\<open>ROLLBACK\<close>,
  the log line, and the call for the 500 response, which throws when a response has gone
  out already.
\<close>

lemma db_rollback_ok: "fst (db_rollback d) = Inr ()"
  by (simp add: db_rollback_def split: tx_state.splits)

lemma db_commit_ok: "fst (db_commit d) = Inr ()"
  by (simp add: db_commit_def split: tx_state.splits)

lemma close_session_idle: "txn (close_session d) = Idle"
  by (simp add: close_session_def split: tx_state.splits)

lemma db_rollback_closed: "db_rollback (close_session d) = (Inr (), close_session d)"
  by (simp add: db_rollback_def close_session_idle)

lemma pool_run_rollback: "pool_run db_rollback d = (Inr (), snd (db_rollback d))"
  using db_rollback_ok [of d] by (cases "db_rollback d") (simp add: pool_run_def)

lemma signup_catch_run:
  assumes "meanwhile w = []"
  shows "signup_catch e er w =
     (case sent w of None \<Rightarrow> Inr () | Some r \<Rightarrow> Inl HeadersSent,
      \<lparr>db = snd (db_rollback (db w)),
       meanwhile = [],
       sent = (case sent w of None \<Rightarrow> Some (500, Message ''Error Inserting Data'') | Some r \<Rightarrow> Some r),
       trace = trace w @ [Query Rollback, ConsoleError ''Error during transaction, rolled back.'' er,
                          ResJson 500 (Message ''Error Inserting Data'')]\<rparr>)"
  using assms
  by (cases w; cases "sent w")
     (simp_all add: signup_catch_def and_then_def pool_query_def pool_run_rollback emit_def
        res_json_def)

text \<open>
  The five paths of a request that has the pool to itself, by the outcome of the hasher
  and of the statements: what is returned or thrown, the session, the response and the
  effects. A statement that fails closes the session it ran on.
\<close>

lemmas try_defs = signup_def signup_handler_def signup_try_def try_catch_def and_then_def ret_def
  emit_def res_json_def pool_query_def pool_run_def bcrypt_hash_def fresh_def all_valid_def

lemma signup_hash_rejected:
  assumes "bcryptHash e (password b) saltRounds = None"
  shows "signup e b d =
     (if all_valid e b then Inr () else Inl HeadersSent,
      \<lparr>db = snd (db_rollback d),
       meanwhile = [],
       sent = Some (if all_valid e b then (500, Message ''Error Inserting Data'')
                    else (401, Message ''Invalid Entry'')),
       trace = (if all_valid e b then [] else [ResJson 401 (Message ''Invalid Entry'')]) @
               [BcryptHash (password b) saltRounds, Query Rollback,
                ConsoleError ''Error during transaction, rolled back.'' BcryptRejected,
                ResJson 500 (Message ''Error Inserting Data'')]\<rparr>)"
  by (cases "all_valid e b") (simp_all add: try_defs signup_catch_run db_rollback_closed assms)

lemma signup_begin_failed:
  assumes "bcryptHash e (password b) saltRounds = Some h"
    and "db_begin d = (Inl er, d1)"
  shows "signup e b d =
     (if all_valid e b then Inr () else Inl HeadersSent,
      \<lparr>db = close_session d1,
       meanwhile = [],
       sent = Some (if all_valid e b then (500, Message ''Error Inserting Data'')
                    else (401, Message ''Invalid Entry'')),
       trace = (if all_valid e b then [] else [ResJson 401 (Message ''Invalid Entry'')]) @
               [BcryptHash (password b) saltRounds, Query Begin, Query Rollback,
                ConsoleError ''Error during transaction, rolled back.'' (Db er),
                ResJson 500 (Message ''Error Inserting Data'')]\<rparr>)"
  by (cases "all_valid e b") (simp_all add: try_defs signup_catch_run db_rollback_closed assms)

lemma signup_insert_user_failed:
  assumes "bcryptHash e (password b) saltRounds = Some h"
    and "db_begin d = (Inr (), d1)"
    and "exec_stmt (insert_user (now e) (prepareValue e (username b)) (prepareValue e (email b))
           (Some h)) d1 = (Inl er, d2)"
  shows "signup e b d =
     (if all_valid e b then Inr () else Inl HeadersSent,
      \<lparr>db = close_session d2,
       meanwhile = [],
       sent = Some (if all_valid e b then (500, Message ''Error Inserting Data'')
                    else (401, Message ''Invalid Entry'')),
       trace = (if all_valid e b then [] else [ResJson 401 (Message ''Invalid Entry'')]) @
               [BcryptHash (password b) saltRounds, Query Begin,
                Query (InsertUser (prepareValue e (username b)) (prepareValue e (email b)) (Some h)),
                Query Rollback,
                ConsoleError ''Error during transaction, rolled back.'' (Db er),
                ResJson 500 (Message ''Error Inserting Data'')]\<rparr>)"
  by (cases "all_valid e b") (simp_all add: try_defs signup_catch_run db_rollback_closed assms)

lemma signup_insert_address_failed:
  assumes "bcryptHash e (password b) saltRounds = Some h"
    and "db_begin d = (Inr (), d1)"
    and "exec_stmt (insert_user (now e) (prepareValue e (username b)) (prepareValue e (email b))
           (Some h)) d1 = (Inr userId, d2)"
    and "exec_stmt (insert_address (now e) userId (prepareValue e (city b))
           (prepareValue e (country b)) (prepareValue e (street b)) (prepareValue e (pincode b))) d2 =
         (Inl er, d3)"
  shows "signup e b d =
     (if all_valid e b then Inr () else Inl HeadersSent,
      \<lparr>db = close_session d3,
       meanwhile = [],
       sent = Some (if all_valid e b then (500, Message ''Error Inserting Data'')
                    else (401, Message ''Invalid Entry'')),
       trace = (if all_valid e b then [] else [ResJson 401 (Message ''Invalid Entry'')]) @
               [BcryptHash (password b) saltRounds, Query Begin,
                Query (InsertUser (prepareValue e (username b)) (prepareValue e (email b)) (Some h)),
                ConsoleLog ''Inserted Data Successfully into 'users' table'',
                Query (InsertAddress userId (prepareValue e (city b)) (prepareValue e (country b))
                         (prepareValue e (street b)) (prepareValue e (pincode b))),
                Query Rollback,
                ConsoleError ''Error during transaction, rolled back.'' (Db er),
                ResJson 500 (Message ''Error Inserting Data'')]\<rparr>)"
  by (cases "all_valid e b") (simp_all add: try_defs signup_catch_run db_rollback_closed assms)

lemma signup_committed:
  assumes "bcryptHash e (password b) saltRounds = Some h"
    and "db_begin d = (Inr (), d1)"
    and "exec_stmt (insert_user (now e) (prepareValue e (username b)) (prepareValue e (email b))
           (Some h)) d1 = (Inr userId, d2)"
    and "exec_stmt (insert_address (now e) userId (prepareValue e (city b))
           (prepareValue e (country b)) (prepareValue e (street b)) (prepareValue e (pincode b))) d2 =
         (Inr (), d3)"
    and "db_commit d3 = (Inr (), d4)"
  shows "signup e b d =
     (if all_valid e b then Inr () else Inl HeadersSent,
      \<lparr>db = (if all_valid e b then d4 else snd (db_rollback d4)),
       meanwhile = [],
       sent = Some (if all_valid e b then (201, Message ''Data Inserted Successfully'')
                    else (401, Message ''Invalid Entry'')),
       trace = (if all_valid e b then [] else [ResJson 401 (Message ''Invalid Entry'')]) @
               [BcryptHash (password b) saltRounds, Query Begin,
                Query (InsertUser (prepareValue e (username b)) (prepareValue e (email b)) (Some h)),
                ConsoleLog ''Inserted Data Successfully into 'users' table'',
                Query (InsertAddress userId (prepareValue e (city b)) (prepareValue e (country b))
                         (prepareValue e (street b)) (prepareValue e (pincode b))),
                ConsoleLog ''Inserted Data Successfully into 'addresses' table'',
                Query Commit, ResJson 201 (Message ''Data Inserted Successfully'')] @
               (if all_valid e b then []
                else [Query Rollback,
                      ConsoleError ''Error during transaction, rolled back.'' HeadersSent,
                      ResJson 500 (Message ''Error Inserting Data'')])\<rparr>)"
  by (cases "all_valid e b") (simp_all add: try_defs signup_catch_run db_rollback_closed assms)

text \<open>Every run of the handler takes one of five paths.\<close>

lemma signup_paths [case_names rejected begin_failed user_failed address_failed committed]:
  obtains
    "bcryptHash e (password b) saltRounds = None"
  | h er d1 where
      "bcryptHash e (password b) saltRounds = Some h" and "db_begin d = (Inl er, d1)"
  | h d1 er d2 where
      "bcryptHash e (password b) saltRounds = Some h" and "db_begin d = (Inr (), d1)" and
      "exec_stmt (insert_user (now e) (prepareValue e (username b)) (prepareValue e (email b))
         (Some h)) d1 = (Inl er, d2)"
  | h d1 userId d2 er d3 where
      "bcryptHash e (password b) saltRounds = Some h" and "db_begin d = (Inr (), d1)" and
      "exec_stmt (insert_user (now e) (prepareValue e (username b)) (prepareValue e (email b))
         (Some h)) d1 = (Inr userId, d2)" and
      "exec_stmt (insert_address (now e) userId (prepareValue e (city b))
         (prepareValue e (country b)) (prepareValue e (street b)) (prepareValue e (pincode b))) d2 =
       (Inl er, d3)"
  | h d1 userId d2 d3 d4 where
      "bcryptHash e (password b) saltRounds = Some h" and "db_begin d = (Inr (), d1)" and
      "exec_stmt (insert_user (now e) (prepareValue e (username b)) (prepareValue e (email b))
         (Some h)) d1 = (Inr userId, d2)" and
      "exec_stmt (insert_address (now e) userId (prepareValue e (city b))
         (prepareValue e (country b)) (prepareValue e (street b)) (prepareValue e (pincode b))) d2 =
       (Inr (), d3)" and
      "db_commit d3 = (Inr (), d4)"
proof (cases "bcryptHash e (password b) saltRounds")
  case None
  then show ?thesis by (rule that(1))
next
  case (Some h)
  obtain r1 d1 where b1: "db_begin d = (r1, d1)"
    by (cases "db_begin d")
  show ?thesis
  proof (cases r1)
    case (Inl er)
    with Some b1 show ?thesis by (auto intro: that(2))
  next
    case (Inr u1)
    with b1 have b1': "db_begin d = (Inr (), d1)" by simp
    obtain r2 d2 where b2:
      "exec_stmt (insert_user (now e) (prepareValue e (username b)) (prepareValue e (email b))
         (Some h)) d1 = (r2, d2)"
      by (cases "exec_stmt (insert_user (now e) (prepareValue e (username b))
                   (prepareValue e (email b)) (Some h)) d1")
    show ?thesis
    proof (cases r2)
      case (Inl er)
      with Some b1' b2 show ?thesis by (auto intro: that(3))
    next
      case (Inr userId)
      note b2' = b2 [unfolded Inr]
      obtain r3 d3 where b3:
        "exec_stmt (insert_address (now e) userId (prepareValue e (city b))
           (prepareValue e (country b)) (prepareValue e (street b)) (prepareValue e (pincode b))) d2 =
         (r3, d3)"
        by (cases "exec_stmt (insert_address (now e) userId (prepareValue e (city b))
             (prepareValue e (country b)) (prepareValue e (street b)) (prepareValue e (pincode b))) d2")
      show ?thesis
      proof (cases r3)
        case (Inl er)
        with Some b1' b2' b3 show ?thesis by (auto intro: that(4))
      next
        case (Inr u3)
        with b3 have b3':
          "exec_stmt (insert_address (now e) userId (prepareValue e (city b))
             (prepareValue e (country b)) (prepareValue e (street b)) (prepareValue e (pincode b))) d2 =
           (Inr (), d3)"
          by simp
        have "db_commit d3 = (Inr (), snd (db_commit d3))"
          using db_commit_ok [of d3] by (cases "db_commit d3") simp
        with Some b1' b2' b3' show ?thesis by (auto intro: that(5))
      qed
    qed
  qed
qed

text \<open>The first effects of every run.\<close>

lemma hash_prefix:
  "take (if all_valid e b then 1 else 2) (trace (snd (signup e b d))) =
     (if all_valid e b then [] else [ResJson 401 (Message ''Invalid Entry'')]) @
     [BcryptHash (password b) saltRounds]"
proof (cases rule: signup_paths [where e = e and b = b and d = d])
  case rejected
  then show ?thesis by (simp add: signup_hash_rejected)
next
  case (begin_failed h er d1)
  then show ?thesis by (simp add: signup_begin_failed)
next
  case (user_failed h d1 er d2)
  then show ?thesis by (simp add: signup_insert_user_failed)
next
  case (address_failed h d1 userId d2 er d3)
  then show ?thesis by (simp add: signup_insert_address_failed)
next
  case (committed h d1 userId d2 d3 d4)
  then show ?thesis by (simp add: signup_committed)
qed

text \<open>
  Claim C8. On every signup request the password hash is computed: the call of
  \<^verbatim>\<open>bcrypt.hash\<close> is the first effect of a request that passed validation and the
  second, straight after the 401 response, of a request that failed it.
\<close>

theorem hash_computed_on_every_request:
  "take (if all_valid e b then 1 else 2) (trace (snd (signup e b d))) =
     (if all_valid e b then [] else [ResJson 401 (Message ''Invalid Entry'')]) @
     [BcryptHash (password b) saltRounds]"
proof (cases rule: signup_paths [where e = e and b = b and d = d])
  case rejected
  then show ?thesis by (simp add: signup_hash_rejected)
next
  case (begin_failed h er d1)
  then show ?thesis by (simp add: signup_begin_failed)
next
  case (user_failed h d1 er d2)
  then show ?thesis by (simp add: signup_insert_user_failed)
next
  case (address_failed h d1 userId d2 er d3)
  then show ?thesis by (simp add: signup_insert_address_failed)
next
  case (committed h d1 userId d2 d3 d4)
  then show ?thesis by (simp add: signup_committed)
qed

section \<open>Required fields\<close>

text \<open>A request that fails validation is answered 401, whatever happens afterwards.\<close>

lemma invalid_request_gets_401:
  assumes "\<not> all_valid e b"
  shows "sent (snd (signup e b d)) = Some (401, Message ''Invalid Entry'')"
  using assms
  by (cases rule: signup_paths [where e = e and b = b and d = d])
     (simp_all add: signup_hash_rejected signup_begin_failed signup_insert_user_failed
        signup_insert_address_failed signup_committed)

text \<open>
  Claim C7, as stated, at the registration of the specification's scenario without its
  pincode, and with a null pincode: validation fails.
\<close>

theorem missing_pincode_fails_validation:
  "all_valid sample_env al_body \<and>
   \<not> all_valid sample_env (al_body\<lparr>pincode := JUndefined\<rparr>) \<and>
   \<not> all_valid sample_env (al_body\<lparr>pincode := JNull\<rparr>) \<and>
   sent (snd (signup sample_env (al_body\<lparr>pincode := JUndefined\<rparr>) empty_db)) =
     Some (401, Message ''Invalid Entry'')"
  by code_simp

text \<open>
  Claim C7, amended. The pincode field is not optional at validation time: a
  registration request that omits the pincode, or supplies it as null, fails field
  validation and is answered 401 \<^verbatim>\<open>Invalid Entry\<close>; pincode, like password, city,
  country and street, must be present non-null text: each of the five schemas accepts
  exactly the strings.
\<close>

theorem pincode_required_text:
  "(passwordSchema v \<longleftrightarrow> (\<exists>s. v = JStr s)) \<and> (citySchema v \<longleftrightarrow> (\<exists>s. v = JStr s)) \<and>
   (countrySchema v \<longleftrightarrow> (\<exists>s. v = JStr s)) \<and> (streetSchema v \<longleftrightarrow> (\<exists>s. v = JStr s)) \<and>
   (pincodeSchema v \<longleftrightarrow> (\<exists>s. v = JStr s)) \<and>
   (all_valid e b \<longrightarrow>
      (\<exists>s. password b = JStr s) \<and> (\<exists>s. city b = JStr s) \<and> (\<exists>s. country b = JStr s) \<and>
      (\<exists>s. street b = JStr s) \<and> (\<exists>s. pincode b = JStr s)) \<and>
   (pincode b = JUndefined \<or> pincode b = JNull \<longrightarrow>
      \<not> all_valid e b \<and> sent (snd (signup e b d)) = Some (401, Message ''Invalid Entry''))"
proof -
  have str: "zod_string x \<longleftrightarrow> (\<exists>s. x = JStr s)" for x
    by (cases x) (simp_all add: zod_string_def)
  have schemas:
    "(passwordSchema v \<longleftrightarrow> (\<exists>s. v = JStr s)) \<and> (citySchema v \<longleftrightarrow> (\<exists>s. v = JStr s)) \<and>
     (countrySchema v \<longleftrightarrow> (\<exists>s. v = JStr s)) \<and> (streetSchema v \<longleftrightarrow> (\<exists>s. v = JStr s)) \<and>
     (pincodeSchema v \<longleftrightarrow> (\<exists>s. v = JStr s))"
    by (simp add: passwordSchema_def citySchema_def countrySchema_def streetSchema_def
        pincodeSchema_def str)
  have present:
    "all_valid e b \<longrightarrow>
      (\<exists>s. password b = JStr s) \<and> (\<exists>s. city b = JStr s) \<and> (\<exists>s. country b = JStr s) \<and>
      (\<exists>s. street b = JStr s) \<and> (\<exists>s. pincode b = JStr s)"
    by (simp add: all_valid_def passwordSchema_def citySchema_def countrySchema_def
        streetSchema_def pincodeSchema_def str)
  have absent:
    "pincode b = JUndefined \<or> pincode b = JNull \<longrightarrow>
      \<not> all_valid e b \<and> sent (snd (signup e b d)) = Some (401, Message ''Invalid Entry'')"
  proof
    assume "pincode b = JUndefined \<or> pincode b = JNull"
    then have "\<not> all_valid e b"
      by (auto simp: all_valid_def pincodeSchema_def zod_string_def)
    then show "\<not> all_valid e b \<and> sent (snd (signup e b d)) = Some (401, Message ''Invalid Entry'')"
      by (simp add: invalid_request_gets_401)
  qed
  from schemas present absent show ?thesis
    by blast
qed

theorem pincode_required_text_witness:
  "all_valid sample_env al_body \<and> (\<exists>s. pincode al_body = JStr s) \<and>
   pincode (al_body\<lparr>pincode := JNull\<rparr>) = JNull \<and>
   \<not> all_valid sample_env (al_body\<lparr>pincode := JNull\<rparr>) \<and>
   sent (snd (signup sample_env (al_body\<lparr>pincode := JNull\<rparr>) al_db)) =
     Some (401, Message ''Invalid Entry'')"
proof -
  have valid: "all_valid sample_env al_body"
    by code_simp
  have null: "pincode (al_body\<lparr>pincode := JNull\<rparr>) = JNull"
    by simp
  from pincode_required_text [of JNull sample_env al_body al_db] valid
    pincode_required_text [of JNull sample_env "al_body\<lparr>pincode := JNull\<rparr>" al_db] null
  show ?thesis
    by blast
qed

section \<open>Statements inside a transaction\<close>

lemma db_begin_idle:
  "txn d = Idle \<Longrightarrow> db_begin d = (Inr (), d\<lparr>txn := InTx (users d) (addresses d)\<rparr>)"
  by (simp add: db_begin_def)

lemma db_rollback_idle: "txn d = Idle \<Longrightarrow> db_rollback d = (Inr (), d)"
  by (simp add: db_rollback_def)

lemma insert_user_txn:
  "insert_user t un em pw (d\<lparr>txn := x\<rparr>) =
     (case insert_user t un em pw d of (r, d') \<Rightarrow> (r, d'\<lparr>txn := x\<rparr>))"
  by (simp add: insert_user_def Let_def split: sum.splits)

lemma insert_address_txn:
  "insert_address t uid ci co st pin (d\<lparr>txn := x\<rparr>) =
     (case insert_address t uid ci co st pin d of (r, d') \<Rightarrow> (r, d'\<lparr>txn := x\<rparr>))"
  by (simp add: insert_address_def Let_def split: sum.splits)

lemma insert_user_keeps_txn: "insert_user t un em pw d = (r, d') \<Longrightarrow> txn d' = txn d"
  by (auto simp: insert_user_def Let_def split: if_splits sum.splits)

lemma insert_address_keeps_txn: "insert_address t uid ci co st pin d = (r, d') \<Longrightarrow> txn d' = txn d"
  by (auto simp: insert_address_def Let_def split: if_splits sum.splits)

lemma insert_user_failed_keeps_tables:
  "insert_user t un em pw d = (Inl er, d') \<Longrightarrow> users d' = users d \<and> addresses d' = addresses d"
  by (auto simp: insert_user_def Let_def split: if_splits sum.splits)

lemma exec_insert_user_ok:
  assumes "insert_user t un em pw d = (Inr i, d2)"
  shows "exec_stmt (insert_user t un em pw) (d\<lparr>txn := InTx us ads\<rparr>) = (Inr i, d2\<lparr>txn := InTx us ads\<rparr>)"
  by (simp add: exec_stmt_def insert_user_txn assms)

lemma exec_insert_user_failed:
  assumes "insert_user t un em pw d = (Inl er, d2)"
  shows "exec_stmt (insert_user t un em pw) (d\<lparr>txn := InTx us ads\<rparr>) = (Inl er, d2\<lparr>txn := Aborted us ads\<rparr>)"
  by (simp add: exec_stmt_def insert_user_txn assms)

lemma exec_insert_address_ok:
  assumes "insert_address t uid ci co st pin d = (Inr (), d3)"
  shows "exec_stmt (insert_address t uid ci co st pin) (d\<lparr>txn := InTx us ads\<rparr>) =
           (Inr (), d3\<lparr>txn := InTx us ads\<rparr>)"
  by (simp add: exec_stmt_def insert_address_txn assms)

lemma exec_insert_address_failed:
  assumes "insert_address t uid ci co st pin d = (Inl er, d3)"
  shows "exec_stmt (insert_address t uid ci co st pin) (d\<lparr>txn := InTx us ads\<rparr>) =
           (Inl er, d3\<lparr>txn := Aborted us ads\<rparr>)"
  by (simp add: exec_stmt_def insert_address_txn assms)

lemma insert_user_ok:
  assumes "insert_user t un em pw d = (Inr i, d')"
  shows "i = users_id_seq d + 1 \<and>
         (\<exists>row. d' = d\<lparr>users_id_seq := i, users := users d @ [row]\<rparr> \<and>
                u_id row = i \<and> i \<notin> set (map u_id (users d)) \<and> u_created_at row = t \<and>
                varchar 50 un = Inr (Some (u_username row)) \<and>
                varchar 50 em = Inr (Some (u_email row)) \<and>
                varchar 100 pw = Inr (Some (u_password row)))"
  using assms
  by (auto simp: insert_user_def user_values_def new_user_row_def Let_def
      split: if_splits sum.splits option.splits prod.splits)

lemma insert_address_ok:
  assumes "insert_address t uid ci co st pin d = (Inr x, d')"
  shows "\<exists>row. d' = d\<lparr>addresses_id_seq := addresses_id_seq d + 1,
                      addresses := addresses d @ [row]\<rparr> \<and>
               a_id row = addresses_id_seq d + 1 \<and> a_user_id row = uid \<and>
               uid \<in> set (map u_id (users d)) \<and> a_created_at row = t \<and>
               varchar 100 ci = Inr (Some (a_city row)) \<and>
               varchar 100 co = Inr (Some (a_country row)) \<and>
               varchar 100 st = Inr (Some (a_street row)) \<and> varchar 20 pin = Inr (a_pincode row)"
  using assms
  by (auto simp: insert_address_def address_values_def new_address_row_def Let_def
      split: if_splits sum.splits option.splits prod.splits)

lemma varchar_fits:
  "CHR 0x00 \<notin> set s \<Longrightarrow> length s \<le> n \<Longrightarrow> varchar n (Some s) = Inr (Some s)"
  by (simp add: varchar_def)

lemma valid_username_text:
  assumes "usernameSchema v"
  obtains s where "v = JStr s" and "length s \<le> 20" and "CHR 0x00 \<notin> set s"
proof (cases v)
  case (JStr s)
  with assms have len: "length s \<le> 20" and cls: "list_all (in_class username_class) s"
    by (simp_all add: usernameSchema_def match_rep_iff)
  have "\<not> spec_username_char (CHR 0x00)"
    by (simp add: spec_username_char_def ascii_letter_def ascii_digit_def)
  with cls have "CHR 0x00 \<notin> set s"
    by (auto simp: list_all_iff in_username_class)
  with JStr len show ?thesis
    by (rule that)
qed (use assms in \<open>simp_all add: usernameSchema_def\<close>)

section \<open>Outcomes of a request on an idle session\<close>

text \<open>
  What a request leaves behind when the session is idle on arrival, by the outcome of the
  hasher and of the two \<^verbatim>\<open>INSERT\<close> statements.
\<close>

lemma signup_idle_hash_rejected:
  assumes idle: "txn d = Idle"
    and hash: "bcryptHash e (password b) saltRounds = None"
  shows "signup e b d =
     (if all_valid e b then Inr () else Inl HeadersSent,
      \<lparr>db = d,
       meanwhile = [],
       sent = Some (if all_valid e b then (500, Message ''Error Inserting Data'')
                    else (401, Message ''Invalid Entry'')),
       trace = (if all_valid e b then [] else [ResJson 401 (Message ''Invalid Entry'')]) @
               [BcryptHash (password b) saltRounds, Query Rollback,
                ConsoleError ''Error during transaction, rolled back.'' BcryptRejected,
                ResJson 500 (Message ''Error Inserting Data'')]\<rparr>)"
  using signup_hash_rejected [OF hash, of d] by (simp add: db_rollback_idle [OF idle])

lemma signup_idle_user_rejected:
  assumes idle: "txn d = Idle"
    and hash: "bcryptHash e (password b) saltRounds = Some h"
    and iu: "insert_user (now e) (prepareValue e (username b)) (prepareValue e (email b)) (Some h) d =
             (Inl er, d2)"
  shows "signup e b d =
     (if all_valid e b then Inr () else Inl HeadersSent,
      \<lparr>db = d2,
       meanwhile = [],
       sent = Some (if all_valid e b then (500, Message ''Error Inserting Data'')
                    else (401, Message ''Invalid Entry'')),
       trace = (if all_valid e b then [] else [ResJson 401 (Message ''Invalid Entry'')]) @
               [BcryptHash (password b) saltRounds, Query Begin,
                Query (InsertUser (prepareValue e (username b)) (prepareValue e (email b)) (Some h)),
                Query Rollback,
                ConsoleError ''Error during transaction, rolled back.'' (Db er),
                ResJson 500 (Message ''Error Inserting Data'')]\<rparr>)"
proof -
  have t2: "txn d2 = Idle"
    using insert_user_keeps_txn [OF iu] idle by simp
  have "close_session (d2\<lparr>txn := Aborted (users d) (addresses d)\<rparr>) = d2"
    using insert_user_failed_keeps_tables [OF iu] t2
    by (cases d2) (simp add: close_session_def)
  then show ?thesis
    using signup_insert_user_failed [OF hash db_begin_idle [OF idle] exec_insert_user_failed [OF iu]]
    by simp
qed

lemma signup_idle_address_rejected:
  assumes idle: "txn d = Idle"
    and hash: "bcryptHash e (password b) saltRounds = Some h"
    and iu: "insert_user (now e) (prepareValue e (username b)) (prepareValue e (email b)) (Some h) d =
             (Inr userId, d2)"
    and ia: "insert_address (now e) userId (prepareValue e (city b)) (prepareValue e (country b))
               (prepareValue e (street b)) (prepareValue e (pincode b)) d2 = (Inl er, d3)"
  shows "signup e b d =
     (if all_valid e b then Inr () else Inl HeadersSent,
      \<lparr>db = d3\<lparr>users := users d, addresses := addresses d\<rparr>,
       meanwhile = [],
       sent = Some (if all_valid e b then (500, Message ''Error Inserting Data'')
                    else (401, Message ''Invalid Entry'')),
       trace = (if all_valid e b then [] else [ResJson 401 (Message ''Invalid Entry'')]) @
               [BcryptHash (password b) saltRounds, Query Begin,
                Query (InsertUser (prepareValue e (username b)) (prepareValue e (email b)) (Some h)),
                ConsoleLog ''Inserted Data Successfully into 'users' table'',
                Query (InsertAddress userId (prepareValue e (city b)) (prepareValue e (country b))
                         (prepareValue e (street b)) (prepareValue e (pincode b))),
                Query Rollback,
                ConsoleError ''Error during transaction, rolled back.'' (Db er),
                ResJson 500 (Message ''Error Inserting Data'')]\<rparr>)"
proof -
  have t3: "txn d3 = Idle"
    using insert_address_keeps_txn [OF ia] insert_user_keeps_txn [OF iu] idle by simp
  have "close_session (d3\<lparr>txn := Aborted (users d) (addresses d)\<rparr>) =
          d3\<lparr>users := users d, addresses := addresses d\<rparr>"
    using t3 by (cases d3) (simp add: close_session_def)
  then show ?thesis
    using signup_insert_address_failed [OF hash db_begin_idle [OF idle] exec_insert_user_ok [OF iu]
        exec_insert_address_failed [OF ia]]
    by simp
qed

lemma signup_idle_both_accepted:
  assumes idle: "txn d = Idle"
    and hash: "bcryptHash e (password b) saltRounds = Some h"
    and iu: "insert_user (now e) (prepareValue e (username b)) (prepareValue e (email b)) (Some h) d =
             (Inr userId, d2)"
    and ia: "insert_address (now e) userId (prepareValue e (city b)) (prepareValue e (country b))
               (prepareValue e (street b)) (prepareValue e (pincode b)) d2 = (Inr (), d3)"
  shows "signup e b d =
     (if all_valid e b then Inr () else Inl HeadersSent,
      \<lparr>db = d3,
       meanwhile = [],
       sent = Some (if all_valid e b then (201, Message ''Data Inserted Successfully'')
                    else (401, Message ''Invalid Entry'')),
       trace = (if all_valid e b then [] else [ResJson 401 (Message ''Invalid Entry'')]) @
               [BcryptHash (password b) saltRounds, Query Begin,
                Query (InsertUser (prepareValue e (username b)) (prepareValue e (email b)) (Some h)),
                ConsoleLog ''Inserted Data Successfully into 'users' table'',
                Query (InsertAddress userId (prepareValue e (city b)) (prepareValue e (country b))
                         (prepareValue e (street b)) (prepareValue e (pincode b))),
                ConsoleLog ''Inserted Data Successfully into 'addresses' table'',
                Query Commit, ResJson 201 (Message ''Data Inserted Successfully'')] @
               (if all_valid e b then []
                else [Query Rollback,
                      ConsoleError ''Error during transaction, rolled back.'' HeadersSent,
                      ResJson 500 (Message ''Error Inserting Data'')])\<rparr>)"
proof -
  have t3: "txn d3 = Idle"
    using insert_address_keeps_txn [OF ia] insert_user_keeps_txn [OF iu] idle by simp
  have commit: "db_commit (d3\<lparr>txn := InTx (users d) (addresses d)\<rparr>) = (Inr (), d3)"
    using t3 by (cases d3) (simp add: db_commit_def)
  have "snd (db_rollback d3) = d3"
    by (simp add: db_rollback_idle [OF t3])
  then show ?thesis
    using signup_committed [OF hash db_begin_idle [OF idle] exec_insert_user_ok [OF iu]
        exec_insert_address_ok [OF ia] commit]
    by simp
qed

text \<open>
  Whatever the request, the handler leaves the session outside a transaction, and the
  identifiers of \<open>users\<close> remain a key.
\<close>

lemma signup_keeps_session_idle_and_key:
  assumes idle: "txn d = Idle"
    and key: "distinct (map u_id (users d))"
  shows "txn (db (snd (signup e b d))) = Idle \<and>
         distinct (map u_id (users (db (snd (signup e b d)))))"
proof (cases "bcryptHash e (password b) saltRounds")
  case None
  show ?thesis
    using idle key by (simp add: signup_idle_hash_rejected [OF idle None])
next
  case (Some h)
  let ?un = "prepareValue e (username b)" and ?em = "prepareValue e (email b)"
  let ?ci = "prepareValue e (city b)" and ?co = "prepareValue e (country b)"
  let ?st = "prepareValue e (street b)" and ?pin = "prepareValue e (pincode b)"
  obtain r2 d2 where iu: "insert_user (now e) ?un ?em (Some h) d = (r2, d2)"
    by (cases "insert_user (now e) ?un ?em (Some h) d")
  show ?thesis
  proof (cases r2)
    case (Inl er)
    note iu' = iu [unfolded Inl]
    show ?thesis
      using insert_user_failed_keeps_tables [OF iu'] insert_user_keeps_txn [OF iu'] idle key
      by (simp add: signup_idle_user_rejected [OF idle Some iu'])
  next
    case (Inr userId)
    note iu' = iu [unfolded Inr]
    obtain r3 d3 where ia: "insert_address (now e) userId ?ci ?co ?st ?pin d2 = (r3, d3)"
      by (cases "insert_address (now e) userId ?ci ?co ?st ?pin d2")
    have t3: "txn d3 = Idle"
      using insert_address_keeps_txn [OF ia] insert_user_keeps_txn [OF iu'] idle by simp
    show ?thesis
    proof (cases r3)
      case (Inl er)
      show ?thesis
        using t3 key by (simp add: signup_idle_address_rejected [OF idle Some iu' ia [unfolded Inl]])
    next
      case (Inr x)
      then have ia': "insert_address (now e) userId ?ci ?co ?st ?pin d2 = (Inr (), d3)"
        using ia by simp
      from insert_user_ok [OF iu'] obtain u where
        d2: "d2 = d\<lparr>users_id_seq := userId, users := users d @ [u]\<rparr>"
        and "u_id u = userId" and "userId \<notin> set (map u_id (users d))"
        by blast
      from insert_address_ok [OF ia'] obtain a where
        d3: "d3 = d2\<lparr>addresses_id_seq := addresses_id_seq d2 + 1,
                          addresses := addresses d2 @ [a]\<rparr>"
        by blast
      have "u_id u \<notin> set (map u_id (users d))"
        using \<open>u_id u = userId\<close> \<open>userId \<notin> set (map u_id (users d))\<close> by simp
      then have "distinct (map u_id (users d3))"
        using key by (simp add: d3 d2)
      then show ?thesis
        using t3 by (simp add: signup_idle_both_accepted [OF idle Some iu' ia'])
    qed
  qed
qed

section \<open>Registration\<close>

text \<open>
  A request that has the pool to itself, on a session outside a transaction: when it
  passed validation and is answered 201, exactly one new row is in \<open>users\<close> and
  exactly one new row is in \<open>addresses\<close>, and the address row's \<open>user_id\<close> is the
  identifier generated for the new user row.
\<close>

lemma signup_alone_one_user_one_address:
  assumes valid: "all_valid e b"
    and idle: "txn d = Idle"
    and ok: "sent (snd (signup e b d)) = Some (201, p)"
  shows "\<exists>u a. users (db (snd (signup e b d))) = users d @ [u] \<and>
               addresses (db (snd (signup e b d))) = addresses d @ [a] \<and>
               a_user_id a = u_id u \<and> u_id u = users_id_seq d + 1 \<and>
               username b = JStr (u_username u) \<and>
               txn (db (snd (signup e b d))) = Idle"
proof (cases "bcryptHash e (password b) saltRounds")
  case None
  from ok valid show ?thesis
    by (simp add: signup_idle_hash_rejected [OF idle None])
next
  case (Some h)
  let ?un = "prepareValue e (username b)" and ?em = "prepareValue e (email b)"
  let ?ci = "prepareValue e (city b)" and ?co = "prepareValue e (country b)"
  let ?st = "prepareValue e (street b)" and ?pin = "prepareValue e (pincode b)"
  obtain r2 d2 where iu: "insert_user (now e) ?un ?em (Some h) d = (r2, d2)"
    by (cases "insert_user (now e) ?un ?em (Some h) d")
  show ?thesis
  proof (cases r2)
    case (Inl er)
    from ok valid show ?thesis
      by (simp add: signup_idle_user_rejected [OF idle Some iu [unfolded Inl]])
  next
    case (Inr userId)
    note iu' = iu [unfolded Inr]
    obtain r3 d3 where ia: "insert_address (now e) userId ?ci ?co ?st ?pin d2 = (r3, d3)"
      by (cases "insert_address (now e) userId ?ci ?co ?st ?pin d2")
    show ?thesis
    proof (cases r3)
      case (Inl er)
      from ok valid show ?thesis
        by (simp add: signup_idle_address_rejected [OF idle Some iu' ia [unfolded Inl]])
    next
      case (Inr x)
      then have ia': "insert_address (now e) userId ?ci ?co ?st ?pin d2 = (Inr (), d3)"
        using ia by simp
      have final: "db (snd (signup e b d)) = d3"
        by (simp add: signup_idle_both_accepted [OF idle Some iu' ia'])
      from insert_user_ok [OF iu'] obtain u where
        uid: "userId = users_id_seq d + 1"
        and d2: "d2 = d\<lparr>users_id_seq := userId, users := users d @ [u]\<rparr>"
        and id: "u_id u = userId"
        and stored: "varchar 50 ?un = Inr (Some (u_username u))"
        by blast
      from insert_address_ok [OF ia'] obtain a where
        d3: "d3 = d2\<lparr>addresses_id_seq := addresses_id_seq d2 + 1,
                          addresses := addresses d2 @ [a]\<rparr>"
        and link: "a_user_id a = userId"
        by blast
      from valid obtain s where s: "username b = JStr s" "length s \<le> 20" "CHR 0x00 \<notin> set s"
        by (auto simp: all_valid_def elim: valid_username_text)
      have "varchar 50 ?un = Inr (Some s)"
        using s by (simp add: prepareValue_def varchar_fits)
      with stored have name: "u_username u = s"
        by simp
      have "users d3 = users d @ [u]" and "addresses d3 = addresses d @ [a]"
        and "txn d3 = Idle"
        by (simp_all add: d3 d2 idle)
      then show ?thesis
        using name id link uid s by (simp add: final)
    qed
  qed
qed

lemma signup_alone_scenario:
  "all_valid sample_env al_body \<and> txn empty_db = Idle \<and>
   sent (snd (signup sample_env al_body empty_db)) = Some (201, Message ''Data Inserted Successfully'') \<and>
   (\<exists>u a. users (db (snd (signup sample_env al_body empty_db))) = users empty_db @ [u] \<and>
          addresses (db (snd (signup sample_env al_body empty_db))) = addresses empty_db @ [a] \<and>
          a_user_id a = u_id u \<and> u_id u = users_id_seq empty_db + 1 \<and>
          username al_body = JStr (u_username u) \<and>
          txn (db (snd (signup sample_env al_body empty_db))) = Idle)"
proof -
  have valid: "all_valid sample_env al_body"
    by code_simp
  have idle: "txn empty_db = Idle"
    by (simp add: empty_db_def)
  have ok: "sent (snd (signup sample_env al_body empty_db)) =
              Some (201, Message ''Data Inserted Successfully'')"
    by code_simp
  from valid idle ok signup_alone_one_user_one_address [OF valid idle ok]
  show ?thesis
    by blast
qed


text \<open>
  Claim C1 at the request of the specification's scenario with the one-character username
  \<^verbatim>\<open>"a"\<close>, on empty tables: the 401 goes out, and the handler goes on to insert and
  commit a row in each table.
\<close>

theorem signup_short_username_still_writes:
  "\<not> usernameSchema (username (al_body\<lparr>username := JStr ''a''\<rparr>)) \<and>
   sent (snd (signup sample_env (al_body\<lparr>username := JStr ''a''\<rparr>) empty_db)) =
     Some (401, Message ''Invalid Entry'') \<and>
   users (db (snd (signup sample_env (al_body\<lparr>username := JStr ''a''\<rparr>) empty_db))) =
     [al_user\<lparr>u_username := ''a''\<rparr>] \<and>
   addresses (db (snd (signup sample_env (al_body\<lparr>username := JStr ''a''\<rparr>) empty_db))) =
     [al_address] \<and>
   txn (db (snd (signup sample_env (al_body\<lparr>username := JStr ''a''\<rparr>) empty_db))) = Idle"
  by code_simp

section \<open>Failures inside and before the transaction\<close>

text \<open>
  A transaction that was opened and not committed is rolled back: the tables are what
  they were, and the response is the generic 500 unless the 401 had gone out before.
\<close>

lemma failed_transaction_rolls_back:
  assumes idle: "txn d = Idle"
    and opened: "Query Begin \<in> set (trace (snd (signup e b d)))"
    and uncommitted: "Query Commit \<notin> set (trace (snd (signup e b d)))"
  shows "Query Rollback \<in> set (trace (snd (signup e b d))) \<and>
         users (db (snd (signup e b d))) = users d \<and>
         addresses (db (snd (signup e b d))) = addresses d \<and>
         txn (db (snd (signup e b d))) = Idle \<and>
         sent (snd (signup e b d)) =
           Some (if all_valid e b then (500, Message ''Error Inserting Data'')
                 else (401, Message ''Invalid Entry''))"
proof (cases "bcryptHash e (password b) saltRounds")
  case None
  from opened show ?thesis
    by (simp add: signup_idle_hash_rejected [OF idle None] split: if_splits)
next
  case (Some h)
  obtain r2 d2 where iu:
    "insert_user (now e) (prepareValue e (username b)) (prepareValue e (email b)) (Some h) d = (r2, d2)"
    by (cases "insert_user (now e) (prepareValue e (username b)) (prepareValue e (email b)) (Some h) d")
  show ?thesis
  proof (cases r2)
    case (Inl er)
    note iu' = iu [unfolded Inl]
    show ?thesis
      using insert_user_failed_keeps_tables [OF iu'] insert_user_keeps_txn [OF iu'] idle
      by (simp add: signup_idle_user_rejected [OF idle Some iu'])
  next
    case (Inr userId)
    note iu' = iu [unfolded Inr]
    obtain r3 d3 where ia:
      "insert_address (now e) userId (prepareValue e (city b)) (prepareValue e (country b))
         (prepareValue e (street b)) (prepareValue e (pincode b)) d2 = (r3, d3)"
      by (cases "insert_address (now e) userId (prepareValue e (city b)) (prepareValue e (country b))
         (prepareValue e (street b)) (prepareValue e (pincode b)) d2")
    show ?thesis
    proof (cases r3)
      case (Inl er)
      note ia' = ia [unfolded Inl]
      show ?thesis
        using insert_address_keeps_txn [OF ia'] insert_user_keeps_txn [OF iu'] idle
        by (simp add: signup_idle_address_rejected [OF idle Some iu' ia'])
    next
      case (Inr u)
      then have ia': "insert_address (now e) userId (prepareValue e (city b))
         (prepareValue e (country b)) (prepareValue e (street b)) (prepareValue e (pincode b)) d2 =
         (Inr (), d3)"
        using ia by simp
      from uncommitted show ?thesis
        by (simp add: signup_idle_both_accepted [OF idle Some iu' ia'] split: if_splits)
    qed
  qed
qed

text \<open>
  Claim C3 at a request with the one-character username \<^verbatim>\<open>"a"\<close> and the e-mail address
  of a registered user: the \<^verbatim>\<open>INSERT\<close> breaks the unique constraint, the handler rolls
  back and the tables are unchanged, but the response the client has is the 401 sent
  before; the call for the 500 throws.
\<close>

theorem signup_invalid_duplicate_email_gets_401:
  "fst (signup sample_env (al_body\<lparr>username := JStr ''a''\<rparr>) al_db) = Inl HeadersSent \<and>
   trace (snd (signup sample_env (al_body\<lparr>username := JStr ''a''\<rparr>) al_db)) =
     [ResJson 401 (Message ''Invalid Entry''), BcryptHash (JStr ''x'') 10, Query Begin,
      Query (InsertUser (Some ''a'') (Some ''a@b.com'') (Some ''$2b$10$x'')), Query Rollback,
      ConsoleError ''Error during transaction, rolled back.'' (Db UniqueViolation),
      ResJson 500 (Message ''Error Inserting Data'')] \<and>
   users (db (snd (signup sample_env (al_body\<lparr>username := JStr ''a''\<rparr>) al_db))) = users al_db \<and>
   addresses (db (snd (signup sample_env (al_body\<lparr>username := JStr ''a''\<rparr>) al_db))) =
     addresses al_db \<and>
   sent (snd (signup sample_env (al_body\<lparr>username := JStr ''a''\<rparr>) al_db)) =
     Some (401, Message ''Invalid Entry'')"
  by code_simp

text \<open>
  Claim C9, as stated, at two requests that fail validation. With the number 5 as
  password the hasher rejects the password, and neither \<^verbatim>\<open>BEGIN\<close> nor an
  \<^verbatim>\<open>INSERT\<close> is issued. With a null username the \<^verbatim>\<open>INSERT\<close> into \<open>users\<close>
  breaks \<^verbatim>\<open>NOT NULL\<close>, and the \<^verbatim>\<open>INSERT\<close> into \<open>addresses\<close> is not issued.
\<close>

theorem invalid_request_without_begin:
  "\<not> all_valid sample_env (al_body\<lparr>password := JNum 5\<rparr>) \<and>
   trace (snd (signup sample_env (al_body\<lparr>password := JNum 5\<rparr>) empty_db)) =
     [ResJson 401 (Message ''Invalid Entry''), BcryptHash (JNum 5) 10, Query Rollback,
      ConsoleError ''Error during transaction, rolled back.'' BcryptRejected,
      ResJson 500 (Message ''Error Inserting Data'')] \<and>
   Query Begin \<notin> set (trace (snd (signup sample_env (al_body\<lparr>password := JNum 5\<rparr>) empty_db))) \<and>
   \<not> all_valid sample_env (al_body\<lparr>username := JNull\<rparr>) \<and>
   trace (snd (signup sample_env (al_body\<lparr>username := JNull\<rparr>) empty_db)) =
     [ResJson 401 (Message ''Invalid Entry''), BcryptHash (JStr ''x'') 10, Query Begin,
      Query (InsertUser None (Some ''a@b.com'') (Some ''$2b$10$x'')), Query Rollback,
      ConsoleError ''Error during transaction, rolled back.'' (Db NotNullViolation),
      ResJson 500 (Message ''Error Inserting Data'')] \<and>
   users (db (snd (signup sample_env (al_body\<lparr>username := JNull\<rparr>) empty_db))) = []"
  by code_simp

text \<open>
  Claim C9, amended, for a request that has the pool to itself on a session outside a
  transaction. After the 401 the handler does not return: it calls the hasher; when the
  hasher returns a digest it issues \<^verbatim>\<open>BEGIN\<close> and the \<^verbatim>\<open>INSERT\<close> into \<open>users\<close>;
  when the store accepts that row it issues the \<^verbatim>\<open>INSERT\<close> into \<open>addresses\<close>; and
  when the store accepts that row too, both rows are written and committed, although the
  client was told 401. When the hasher rejects the password or an \<^verbatim>\<open>INSERT\<close> fails, the
  handler goes to \<^verbatim>\<open>ROLLBACK\<close>: the later statements are not issued and no row is
  written. The effects are given in full in each case.
\<close>

theorem invalid_request_goes_on_to_write:
  assumes invalid: "\<not> all_valid e b"
    and idle: "txn d = Idle"
  shows
    "let w = snd (signup e b d);
         un = prepareValue e (username b); em = prepareValue e (email b);
         ci = prepareValue e (city b); co = prepareValue e (country b);
         st = prepareValue e (street b); pin = prepareValue e (pincode b);
         told = ResJson 401 (Message ''Invalid Entry'');
         hashing = BcryptHash (password b) saltRounds;
         caught = (\<lambda>x. [Query Rollback, ConsoleError ''Error during transaction, rolled back.'' x,
                         ResJson 500 (Message ''Error Inserting Data'')])
     in sent w = Some (401, Message ''Invalid Entry'') \<and>
        take 2 (trace w) = [told, hashing] \<and>
        (bcryptHash e (password b) saltRounds = None \<longrightarrow>
           trace w = [told, hashing] @ caught BcryptRejected \<and> db w = d) \<and>
        (\<forall>h. bcryptHash e (password b) saltRounds = Some h \<longrightarrow>
           take 4 (trace w) = [told, hashing, Query Begin, Query (InsertUser un em (Some h))] \<and>
           (\<forall>er d2. insert_user (now e) un em (Some h) d = (Inl er, d2) \<longrightarrow>
              trace w = [told, hashing, Query Begin, Query (InsertUser un em (Some h))] @
                        caught (Db er) \<and>
              users (db w) = users d \<and> addresses (db w) = addresses d) \<and>
           (\<forall>userId d2. insert_user (now e) un em (Some h) d = (Inr userId, d2) \<longrightarrow>
              take 6 (trace w) =
                [told, hashing, Query Begin, Query (InsertUser un em (Some h)),
                 ConsoleLog ''Inserted Data Successfully into 'users' table'',
                 Query (InsertAddress userId ci co st pin)] \<and>
              (\<forall>er d3. insert_address (now e) userId ci co st pin d2 = (Inl er, d3) \<longrightarrow>
                 trace w =
                   [told, hashing, Query Begin, Query (InsertUser un em (Some h)),
                    ConsoleLog ''Inserted Data Successfully into 'users' table'',
                    Query (InsertAddress userId ci co st pin)] @ caught (Db er) \<and>
                 users (db w) = users d \<and> addresses (db w) = addresses d) \<and>
              (\<forall>d3. insert_address (now e) userId ci co st pin d2 = (Inr (), d3) \<longrightarrow>
                 trace w =
                   [told, hashing, Query Begin, Query (InsertUser un em (Some h)),
                    ConsoleLog ''Inserted Data Successfully into 'users' table'',
                    Query (InsertAddress userId ci co st pin),
                    ConsoleLog ''Inserted Data Successfully into 'addresses' table'',
                    Query Commit, ResJson 201 (Message ''Data Inserted Successfully'')] @
                   caught HeadersSent \<and>
                 db w = d3 \<and>
                 (\<exists>u a. users d3 = users d @ [u] \<and> addresses d3 = addresses d @ [a] \<and>
                        a_user_id a = u_id u))))"
proof -
  let ?w = "snd (signup e b d)"
  let ?un = "prepareValue e (username b)" and ?em = "prepareValue e (email b)"
  let ?ci = "prepareValue e (city b)" and ?co = "prepareValue e (country b)"
  let ?st = "prepareValue e (street b)" and ?pin = "prepareValue e (pincode b)"
  let ?told = "ResJson 401 (Message ''Invalid Entry'')"
  let ?hashing = "BcryptHash (password b) saltRounds"
  let ?caught = "\<lambda>x. [Query Rollback, ConsoleError ''Error during transaction, rolled back.'' x,
                       ResJson 500 (Message ''Error Inserting Data'')]"
  have p1: "sent ?w = Some (401, Message ''Invalid Entry'')"
    by (rule invalid_request_gets_401 [OF invalid])
  have p2: "take 2 (trace ?w) = [?told, ?hashing]"
    using invalid hash_prefix [of e b d] by simp
  have p3: "trace ?w = [?told, ?hashing] @ ?caught BcryptRejected \<and> db ?w = d"
    if "bcryptHash e (password b) saltRounds = None"
    using invalid by (simp add: signup_idle_hash_rejected [OF idle that])
  have p5: "trace ?w = [?told, ?hashing, Query Begin, Query (InsertUser ?un ?em (Some h))] @
                       ?caught (Db er) \<and>
            users (db ?w) = users d \<and> addresses (db ?w) = addresses d"
    if "bcryptHash e (password b) saltRounds = Some h"
      and "insert_user (now e) ?un ?em (Some h) d = (Inl er, d2)" for h er d2
    using invalid insert_user_failed_keeps_tables [OF that(2)]
    by (simp add: signup_idle_user_rejected [OF idle that])
  have p7: "trace ?w =
              [?told, ?hashing, Query Begin, Query (InsertUser ?un ?em (Some h)),
               ConsoleLog ''Inserted Data Successfully into 'users' table'',
               Query (InsertAddress userId ?ci ?co ?st ?pin)] @ ?caught (Db er) \<and>
            users (db ?w) = users d \<and> addresses (db ?w) = addresses d"
    if "bcryptHash e (password b) saltRounds = Some h"
      and "insert_user (now e) ?un ?em (Some h) d = (Inr userId, d2)"
      and "insert_address (now e) userId ?ci ?co ?st ?pin d2 = (Inl er, d3)" for h userId d2 er d3
    using invalid by (simp add: signup_idle_address_rejected [OF idle that])
  have p8: "trace ?w =
              [?told, ?hashing, Query Begin, Query (InsertUser ?un ?em (Some h)),
               ConsoleLog ''Inserted Data Successfully into 'users' table'',
               Query (InsertAddress userId ?ci ?co ?st ?pin),
               ConsoleLog ''Inserted Data Successfully into 'addresses' table'',
               Query Commit, ResJson 201 (Message ''Data Inserted Successfully'')] @
              ?caught HeadersSent \<and>
            db ?w = d3 \<and>
            (\<exists>u a. users d3 = users d @ [u] \<and> addresses d3 = addresses d @ [a] \<and>
                   a_user_id a = u_id u)"
    if hash: "bcryptHash e (password b) saltRounds = Some h"
      and iu: "insert_user (now e) ?un ?em (Some h) d = (Inr userId, d2)"
      and ia: "insert_address (now e) userId ?ci ?co ?st ?pin d2 = (Inr (), d3)" for h userId d2 d3
  proof -
    from insert_user_ok [OF iu] obtain u where
      d2: "d2 = d\<lparr>users_id_seq := userId, users := users d @ [u]\<rparr>" and "u_id u = userId"
      by blast
    from insert_address_ok [OF ia] obtain a where
      d3: "d3 = d2\<lparr>addresses_id_seq := addresses_id_seq d2 + 1,
                      addresses := addresses d2 @ [a]\<rparr>" and "a_user_id a = userId"
      by blast
    have "users d3 = users d @ [u] \<and> addresses d3 = addresses d @ [a] \<and> a_user_id a = u_id u"
      using \<open>u_id u = userId\<close> \<open>a_user_id a = userId\<close> by (simp add: d3 d2)
    then show ?thesis
      using invalid by (simp add: signup_idle_both_accepted [OF idle hash iu ia])
  qed
  have p6: "take 6 (trace ?w) =
              [?told, ?hashing, Query Begin, Query (InsertUser ?un ?em (Some h)),
               ConsoleLog ''Inserted Data Successfully into 'users' table'',
               Query (InsertAddress userId ?ci ?co ?st ?pin)]"
    if hash: "bcryptHash e (password b) saltRounds = Some h"
      and iu: "insert_user (now e) ?un ?em (Some h) d = (Inr userId, d2)" for h userId d2
  proof -
    obtain r3 d3 where ia: "insert_address (now e) userId ?ci ?co ?st ?pin d2 = (r3, d3)"
      by (cases "insert_address (now e) userId ?ci ?co ?st ?pin d2")
    show ?thesis
    proof (cases r3)
      case (Inl er)
      with p7 [OF hash iu] ia show ?thesis by simp
    next
      case (Inr x)
      with p8 [OF hash iu] ia show ?thesis by simp
    qed
  qed
  have p4: "take 4 (trace ?w) = [?told, ?hashing, Query Begin, Query (InsertUser ?un ?em (Some h))]"
    if hash: "bcryptHash e (password b) saltRounds = Some h" for h
  proof -
    obtain r2 d2 where iu: "insert_user (now e) ?un ?em (Some h) d = (r2, d2)"
      by (cases "insert_user (now e) ?un ?em (Some h) d")
    show ?thesis
    proof (cases r2)
      case (Inl er)
      with p5 [OF hash] iu show ?thesis by simp
    next
      case (Inr userId)
      with iu have "take 6 (trace ?w) =
              [?told, ?hashing, Query Begin, Query (InsertUser ?un ?em (Some h)),
               ConsoleLog ''Inserted Data Successfully into 'users' table'',
               Query (InsertAddress userId ?ci ?co ?st ?pin)]"
        by (simp add: p6 [OF hash])
      then have "take 4 (take 6 (trace ?w)) =
                   [?told, ?hashing, Query Begin, Query (InsertUser ?un ?em (Some h))]"
        by simp
      then show ?thesis by simp
    qed
  qed
  show ?thesis
    unfolding Let_def using p1 p2 p3 p4 p5 p6 p7 p8 by blast
qed

theorem invalid_request_goes_on_to_write_witness:
  "\<not> all_valid sample_env (al_body\<lparr>username := JStr ''a''\<rparr>) \<and> txn empty_db = Idle \<and>
   bcryptHash sample_env (password (al_body\<lparr>username := JStr ''a''\<rparr>)) saltRounds =
     Some ''$2b$10$x'' \<and>
   db (snd (signup sample_env (al_body\<lparr>username := JStr ''a''\<rparr>) empty_db)) =
     al_db\<lparr>users := [al_user\<lparr>u_username := ''a''\<rparr>]\<rparr> \<and>
   sent (snd (signup sample_env (al_body\<lparr>username := JStr ''a''\<rparr>) empty_db)) =
     Some (401, Message ''Invalid Entry'')"
proof -
  let ?b = "al_body\<lparr>username := JStr ''a''\<rparr>"
  let ?d2 = "empty_db\<lparr>users_id_seq := 1, users := [al_user\<lparr>u_username := ''a''\<rparr>]\<rparr>"
  have invalid: "\<not> all_valid sample_env ?b"
    by code_simp
  have idle: "txn empty_db = Idle"
    by code_simp
  have hash: "bcryptHash sample_env (password ?b) saltRounds = Some ''$2b$10$x''"
    by code_simp
  have iu: "insert_user (now sample_env) (prepareValue sample_env (username ?b))
              (prepareValue sample_env (email ?b)) (Some ''$2b$10$x'') empty_db = (Inr 1, ?d2)"
    by code_simp
  have ia: "insert_address (now sample_env) 1 (prepareValue sample_env (city ?b))
              (prepareValue sample_env (country ?b)) (prepareValue sample_env (street ?b))
              (prepareValue sample_env (pincode ?b)) ?d2 =
            (Inr (), al_db\<lparr>users := [al_user\<lparr>u_username := ''a''\<rparr>]\<rparr>)"
    by code_simp
  from invalid_request_goes_on_to_write [OF invalid idle, unfolded Let_def] hash iu ia
  have "db (snd (signup sample_env ?b empty_db)) = al_db\<lparr>users := [al_user\<lparr>u_username := ''a''\<rparr>]\<rparr>"
    and "sent (snd (signup sample_env ?b empty_db)) = Some (401, Message ''Invalid Entry'')"
    by blast+
  with invalid idle hash show ?thesis
    by blast
qed

text \<open>
  Claim C10 at its own example, a request whose password is not a string: the hasher
  rejects it before \<^verbatim>\<open>BEGIN\<close>, the \<^verbatim>\<open>catch\<close> block issues \<^verbatim>\<open>ROLLBACK\<close> on the
  session with no open transaction and calls for the 500; but the 401 has gone out
  before, the call throws, and the response of the request is the 401.
\<close>

theorem rollback_without_transaction_keeps_401:
  "bcryptHash sample_env (password (al_body\<lparr>password := JNum 5\<rparr>)) saltRounds = None \<and>
   txn empty_db = Idle \<and>
   fst (signup sample_env (al_body\<lparr>password := JNum 5\<rparr>) empty_db) = Inl HeadersSent \<and>
   trace (snd (signup sample_env (al_body\<lparr>password := JNum 5\<rparr>) empty_db)) =
     [ResJson 401 (Message ''Invalid Entry''), BcryptHash (JNum 5) 10, Query Rollback,
      ConsoleError ''Error during transaction, rolled back.'' BcryptRejected,
      ResJson 500 (Message ''Error Inserting Data'')] \<and>
   db (snd (signup sample_env (al_body\<lparr>password := JNum 5\<rparr>) empty_db)) = empty_db \<and>
   sent (snd (signup sample_env (al_body\<lparr>password := JNum 5\<rparr>) empty_db)) =
     Some (401, Message ''Invalid Entry'') \<and>
   sent (snd (signup sample_env (al_body\<lparr>password := JNum 5\<rparr>) empty_db)) \<noteq>
     Some (500, Message ''Error Inserting Data'')"
  by code_simp

section \<open>Lookups\<close>

lemmas lookup_defs = badapproach_def badapproach_try_def goodapproach_def goodapproach_try_def
  lookup_catch_def try_catch_def and_then_def emit_def res_json_def pool_query_def fresh_def
  pool_run_def close_session_def exec_stmt_def select_user_def select_addresses_def
  select_join_def

text \<open>
  Claim C5, as stated, at the identifier \<^verbatim>\<open>abc\<close>: no user row matches it, and the
  response is neither 404 nor 200 but 500, because the query fails.
\<close>

theorem two_query_lookup_malformed_id:
  "int4in sample_env ''abc'' = None \<and>
   sent (snd (badapproach sample_env (JStr ''abc'') al_db)) =
     Some (500, Message ''Error Fetching Data'')"
  by code_simp

text \<open>
  Claim C5, amended. For every two-query lookup whose identifier is absent or is read by
  the store as an integer: when no user row has that identifier the response is 404
  \<^verbatim>\<open>User Not Found\<close>; otherwise it is 200 with the id, username and e-mail of the user
  and all address rows whose \<open>user_id\<close> is the identifier, as many as there are, none
  included. An identifier that is not an integer makes the query fail, and the response
  is 500.
\<close>

theorem two_query_lookup:
  assumes idle: "txn d = Idle"
  shows "sent (snd (badapproach e q d)) =
     (case prepareValue e q of
        None \<Rightarrow> Some (404, Message ''User Not Found'')
      | Some s \<Rightarrow>
          (case int4in e s of
             None \<Rightarrow> Some (500, Message ''Error Fetching Data'')
           | Some i \<Rightarrow>
               (case filter (\<lambda>u. u_id u = i) (users d) of
                  [] \<Rightarrow> Some (404, Message ''User Not Found'')
                | u # _ \<Rightarrow>
                    Some (200, UserWithAddresses (view_of u)
                                 (filter (\<lambda>a. a_user_id a = i) (addresses d))))))"
proof (cases "prepareValue e q")
  case None
  then show ?thesis
    by (simp add: lookup_defs idle)
next
  case (Some s)
  show ?thesis
  proof (cases "int4in e s")
    case None
    with Some show ?thesis
      by (simp add: lookup_defs idle)
  next
    case (Some i)
    with \<open>prepareValue e q = Some s\<close> show ?thesis
      by (cases "filter (\<lambda>u. u_id u = i) (users d)") (simp_all add: lookup_defs idle)
  qed
qed

theorem two_query_lookup_witness:
  "txn al_db = Idle \<and>
   sent (snd (badapproach sample_env (JStr ''1'') al_db)) =
     Some (200, UserWithAddresses \<lparr>v_id = 1, v_username = ''al'', v_email = ''a@b.com''\<rparr> [al_address]) \<and>
   sent (snd (badapproach sample_env (JStr ''1'') (al_db\<lparr>addresses := []\<rparr>))) =
     Some (200, UserWithAddresses \<lparr>v_id = 1, v_username = ''al'', v_email = ''a@b.com''\<rparr> []) \<and>
   sent (snd (badapproach sample_env (JStr ''7'') al_db)) = Some (404, Message ''User Not Found'') \<and>
   sent (snd (badapproach sample_env JUndefined al_db)) = Some (404, Message ''User Not Found'')"
proof -
  have idle: "txn al_db = Idle" "txn (al_db\<lparr>addresses := []\<rparr>) = Idle"
    by code_simp+
  have p: "prepareValue sample_env (JStr ''1'') = Some ''1''"
    "prepareValue sample_env (JStr ''7'') = Some ''7''"
    "prepareValue sample_env JUndefined = None"
    by code_simp+
  have i: "int4in sample_env ''1'' = Some 1" "int4in sample_env ''7'' = Some 7"
    by code_simp+
  have u: "filter (\<lambda>u. u_id u = 1) (users al_db) = [al_user]"
    "filter (\<lambda>u. u_id u = 7) (users al_db) = []"
    "filter (\<lambda>a. a_user_id a = 1) (addresses al_db) = [al_address]"
    "view_of al_user = \<lparr>v_id = 1, v_username = ''al'', v_email = ''a@b.com''\<rparr>"
    by (simp_all add: al_db_def al_user_def al_address_def view_of_def)
  show ?thesis
    using two_query_lookup [OF idle(1), of sample_env "JStr ''1''"]
      two_query_lookup [OF idle(2), of sample_env "JStr ''1''"]
      two_query_lookup [OF idle(1), of sample_env "JStr ''7''"]
      two_query_lookup [OF idle(1), of sample_env JUndefined]
    by (simp add: idle p i u)
qed

text \<open>The response of the joined lookup, for every identifier.\<close>

lemma joined_lookup_response:
  assumes idle: "txn d = Idle"
  shows "sent (snd (goodapproach e q d)) =
     (case prepareValue e q of
        None \<Rightarrow> Some (404, Message ''User Not Found'')
      | Some s \<Rightarrow>
          (case int4in e s of
             None \<Rightarrow> Some (500, Message ''Error Fetching Data'')
           | Some i \<Rightarrow>
               (case inner_join i (users d) (addresses d) of
                  [] \<Rightarrow> Some (404, Message ''User Not Found'')
                | r # _ \<Rightarrow> Some (200, UserAndAddresses r))))"
proof (cases "prepareValue e q")
  case None
  then show ?thesis
    by (simp add: lookup_defs idle)
next
  case (Some s)
  show ?thesis
  proof (cases "int4in e s")
    case None
    with Some show ?thesis
      by (simp add: lookup_defs idle)
  next
    case (Some i)
    with \<open>prepareValue e q = Some s\<close> show ?thesis
      by (cases "inner_join i (users d) (addresses d)") (simp_all add: lookup_defs idle)
  qed
qed

lemma filter_key_unique:
  assumes "distinct (map f xs)" and "x \<in> set xs"
  shows "filter (\<lambda>y. f y = f x) xs = [x]"
  using assms
proof (induction xs)
  case Nil
  then show ?case by simp
next
  case (Cons y ys)
  show ?case
  proof (cases "y = x")
    case True
    with Cons.prems have "f x \<notin> f ` set ys"
      by simp
    then have "\<forall>z \<in> set ys. f z \<noteq> f x"
      by (metis imageI)
    then have "filter (\<lambda>y. f y = f x) ys = []"
      by (simp add: filter_empty_conv)
    with True show ?thesis by simp
  next
    case False
    with Cons.prems have "x \<in> set ys" and "f y \<noteq> f x"
      by auto
    with Cons show ?thesis by simp
  qed
qed

lemma inner_join_of_user:
  assumes "distinct (map u_id us)" and "u \<in> set us"
  shows "inner_join (u_id u) us ads = map (join_row u) (filter (\<lambda>a. a_user_id a = u_id u) ads)"
proof -
  have "filter (\<lambda>a. u_id u = a_user_id a) ads = filter (\<lambda>a. a_user_id a = u_id u) ads"
    by (rule filter_cong) auto
  then show ?thesis
    by (simp add: inner_join_def filter_key_unique [OF assms])
qed

text \<open>
  Claim C4. For every joined lookup of an existing user with \<open>N\<close> addresses: when
  \<open>N = 0\<close> the response is 404 \<^verbatim>\<open>User Not Found\<close>; when \<open>N \<ge> 1\<close> the response is 200
  and carries one joined row, the first of the \<open>N\<close>: the user's columns with those of
  the first of its addresses. The user's identifier is a primary key.
\<close>

theorem joined_lookup_existing_user:
  assumes idle: "txn d = Idle"
    and key: "distinct (map u_id (users d))"
    and user: "u \<in> set (users d)"
    and param: "prepareValue e q = Some s" "int4in e s = Some (u_id u)"
    and N: "N = length (filter (\<lambda>a. a_user_id a = u_id u) (addresses d))"
  shows "length (inner_join (u_id u) (users d) (addresses d)) = N \<and>
         (N = 0 \<longrightarrow> sent (snd (goodapproach e q d)) = Some (404, Message ''User Not Found'')) \<and>
         (1 \<le> N \<longrightarrow>
            sent (snd (goodapproach e q d)) =
              Some (200, UserAndAddresses
                           (join_row u (hd (filter (\<lambda>a. a_user_id a = u_id u) (addresses d))))))"
proof -
  let ?ads = "filter (\<lambda>a. a_user_id a = u_id u) (addresses d)"
  have rows: "inner_join (u_id u) (users d) (addresses d) = map (join_row u) ?ads"
    by (rule inner_join_of_user [OF key user])
  have resp: "sent (snd (goodapproach e q d)) =
                (case map (join_row u) ?ads of
                   [] \<Rightarrow> Some (404, Message ''User Not Found'')
                 | r # _ \<Rightarrow> Some (200, UserAndAddresses r))"
    using joined_lookup_response [OF idle, of e q] by (simp add: param rows)
  show ?thesis
    using N by (cases ?ads) (simp_all add: rows resp)
qed

theorem joined_lookup_existing_user_witness:
  "sent (snd (goodapproach sample_env (JStr ''1'')
           (al_db\<lparr>addresses := [al_address, al_address\<lparr>a_id := 2, a_city := ''LA''\<rparr>]\<rparr>))) =
     Some (200, UserAndAddresses (join_row al_user al_address)) \<and>
   sent (snd (goodapproach sample_env (JStr ''1'') (al_db\<lparr>addresses := []\<rparr>))) =
     Some (404, Message ''User Not Found'')"
proof -
  let ?two = "al_db\<lparr>addresses := [al_address, al_address\<lparr>a_id := 2, a_city := ''LA''\<rparr>]\<rparr>"
  let ?none = "al_db\<lparr>addresses := []\<rparr>"
  have idle: "txn ?two = Idle" "txn ?none = Idle"
    by code_simp+
  have key: "distinct (map u_id (users ?two))" "distinct (map u_id (users ?none))"
    by (simp_all add: al_db_def)
  have user: "al_user \<in> set (users ?two)" "al_user \<in> set (users ?none)"
    by (simp_all add: al_db_def)
  have p: "prepareValue sample_env (JStr ''1'') = Some ''1''"
    by code_simp
  have i: "int4in sample_env ''1'' = Some (u_id al_user)"
    by code_simp
  have two: "filter (\<lambda>a. a_user_id a = u_id al_user) (addresses ?two) =
               [al_address, al_address\<lparr>a_id := 2, a_city := ''LA''\<rparr>]"
    by (simp add: al_db_def al_user_def al_address_def)
  have none: "filter (\<lambda>a. a_user_id a = u_id al_user) (addresses ?none) = []"
    by simp
  have n2: "2 = length (filter (\<lambda>a. a_user_id a = u_id al_user) (addresses ?two))"
    by (simp add: al_user_def al_address_def)
  have n0: "0 = length (filter (\<lambda>a. a_user_id a = u_id al_user) (addresses ?none))"
    by (simp add: none)
  from joined_lookup_existing_user [OF idle(1) key(1) user(1) p i n2]
       joined_lookup_existing_user [OF idle(2) key(2) user(2) p i n0]
  show ?thesis
    by (simp add: al_user_def al_address_def)
qed

text \<open>
  The scenario of the specification: the registration of \<^verbatim>\<open>al\<close> is answered 201, and
  the joined lookup of the identifier it generated is answered 200 with city \<^verbatim>\<open>NY\<close>.
\<close>

lemma scenario_signup_then_joined_lookup:
  "sent (snd (signup sample_env al_body empty_db)) = Some (201, Message ''Data Inserted Successfully'') \<and>
   sent (snd (goodapproach sample_env (JStr ''1'') (db (snd (signup sample_env al_body empty_db))))) =
     Some (200, UserAndAddresses
                  \<lparr>j_id = 1, j_username = ''al'', j_email = ''a@b.com'', j_city = ''NY'',
                   j_country = ''US'', j_street = ''Main'', j_pincode = Some ''10001''\<rparr>)"
  by code_simp

end
